theory Spec2Isabelle
  imports Complex_Main "HOL-Library.Sublist" "HOL-Library.Multiset" "HOL-Library.Monad_Syntax"
begin

section \<open>Text\<close>

text \<open>
  Python strings are modelled as \<open>string\<close>, with one \<open>char\<close> per code point below 256.
  \<open>isspace\<close> is Python's \<open>str.isspace\<close> on that range and \<open>strip\<close> is \<open>str.strip()\<close>
  without arguments. \<open>lower\<close> folds the 26 ASCII upper-case letters: the case folding
  SQLite's built-in \<open>LIKE\<close> applies.
\<close>

definition isspace :: "char \<Rightarrow> bool" where
  "isspace c = ((of_char c :: nat) \<in> set [9, 10, 11, 12, 13, 28, 29, 30, 31, 32, 133, 160])"

definition strip :: "string \<Rightarrow> string" where
  "strip s = rev (dropWhile isspace (rev (dropWhile isspace s)))"

definition lower :: "char \<Rightarrow> char" where
  "lower c =
     (case map_of (zip ''ABCDEFGHIJKLMNOPQRSTUVWXYZ'' ''abcdefghijklmnopqrstuvwxyz'') c of
        None \<Rightarrow> c
      | Some l \<Rightarrow> l)"

text \<open>
  SQLite's \<open>text LIKE pattern\<close> with no ESCAPE clause: \<open>%\<close> in the pattern matches any
  run of characters (the empty one too), \<open>_\<close> matches exactly one character, every other
  character matches itself up to ASCII case. The first argument is the pattern.
\<close>

fun like :: "string \<Rightarrow> string \<Rightarrow> bool" where
  "like [] [] = True"
| "like [] (c # cs) = False"
| "like (p # ps) [] = (p = CHR ''%'' \<and> like ps [])"
| "like (p # ps) (c # cs) =
     (if p = CHR ''%'' then like ps (c # cs) \<or> like (p # ps) cs
      else (p = CHR ''_'' \<or> lower p = lower c) \<and> like ps cs)"

section \<open>The settlement_ledger table (database.py)\<close>

text \<open>
  One row of the table: the nine columns a caller supplies (\<open>fields\<close>, also the
  dictionary the entry form returns) and the three the store fills in. \<open>rowid\<close> is
  the column \<open>id INTEGER PRIMARY KEY AUTOINCREMENT\<close>; \<open>name\<close> is \<open>TEXT NOT NULL\<close>; the
  eight amounts are nullable \<open>REAL\<close> columns, with NULL as \<open>None\<close>; the two timestamps
  are seconds on the clock that \<open>CURRENT_TIMESTAMP\<close> reads. Amounts are real numbers: the
  rounding and the special values of Python's floats are outside the model.
\<close>

record fields =
  name :: string
  previous_balance :: "real option"
  previous_total :: "real option"
  seller_1 :: "real option"
  seller_2 :: "real option"
  seller_3 :: "real option"
  seller_4 :: "real option"
  today_total :: "real option"
  today_balance :: "real option"

record entry = fields +
  rowid :: int
  created_at :: nat
  updated_at :: nat

text \<open>
  The database: the rows in insertion order, and the largest id ever handed out
  (the table's entry in \<open>sqlite_sequence\<close>, which AUTOINCREMENT keeps so that the id of a
  deleted row is not given again).
\<close>

record database =
  rows :: "entry list"
  seq :: int

definition initialize_database :: database where
  "initialize_database = \<lparr>rows = [], seq = 0\<rparr>"

text \<open>The id AUTOINCREMENT gives the next row: one more than every id in use or used before.\<close>

definition next_rowid :: "database \<Rightarrow> int" where
  "next_rowid d = fold max (map rowid (rows d)) (seq d) + 1"

text \<open>
  Every operation takes the database first and the reading \<open>now\<close> of the clock second,
  then the arguments of the Python method in their order, and returns the method's
  result with the database after the commit.
\<close>

definition add_entry ::
  "database \<Rightarrow> nat \<Rightarrow> string \<Rightarrow> real option \<Rightarrow> real option \<Rightarrow> real option \<Rightarrow> real option \<Rightarrow>
   real option \<Rightarrow> real option \<Rightarrow> real option \<Rightarrow> real option \<Rightarrow> int \<times> database" where
  "add_entry d now nm pb pt s1 s2 s3 s4 tt tb =
     (let lastrowid = next_rowid d;
          row = \<lparr>name = nm, previous_balance = pb, previous_total = pt,
                 seller_1 = s1, seller_2 = s2, seller_3 = s3, seller_4 = s4,
                 today_total = tt, today_balance = tb,
                 rowid = lastrowid, created_at = now, updated_at = now\<rparr>
      in (lastrowid, d\<lparr>rows := rows d @ [row], seq := lastrowid\<rparr>))"

definition get_entry :: "database \<Rightarrow> int \<Rightarrow> entry option" where
  "get_entry d entry_id = find (\<lambda>e. rowid e = entry_id) (rows d)"

text \<open>
  \<open>ORDER BY updated_at DESC\<close>. SQL leaves the order of rows with equal timestamps open;
  the model keeps them in insertion order.
\<close>

definition order_by_updated_at_desc :: "entry list \<Rightarrow> entry list" where
  "order_by_updated_at_desc es = sort_key (\<lambda>e. - int (updated_at e)) es"

definition get_all_entries :: "database \<Rightarrow> entry list" where
  "get_all_entries d = order_by_updated_at_desc (rows d)"

text \<open>
  \<open>update_entry\<close> collects one assignment for every argument that is not \<open>None\<close>, in
  the order of the arguments; \<open>assign\<close> is one such \<open>if x is not None: updates.append(...)\<close>
  block, with the assignment as the function it performs on a row.
\<close>

fun assign :: "'v option \<Rightarrow> ('v \<Rightarrow> entry \<Rightarrow> entry) \<Rightarrow> (entry \<Rightarrow> entry) list" where
  "assign None f = []"
| "assign (Some v) f = [f v]"

definition update_entry ::
  "database \<Rightarrow> nat \<Rightarrow> int \<Rightarrow> string option \<Rightarrow> real option \<Rightarrow> real option \<Rightarrow> real option \<Rightarrow>
   real option \<Rightarrow> real option \<Rightarrow> real option \<Rightarrow> real option \<Rightarrow> real option \<Rightarrow> bool \<times> database" where
  "update_entry d now entry_id nm pb pt s1 s2 s3 s4 tt tb =
     (let updates =
            assign nm (\<lambda>v e. e\<lparr>name := v\<rparr>) @
            assign pb (\<lambda>v e. e\<lparr>previous_balance := Some v\<rparr>) @
            assign pt (\<lambda>v e. e\<lparr>previous_total := Some v\<rparr>) @
            assign s1 (\<lambda>v e. e\<lparr>seller_1 := Some v\<rparr>) @
            assign s2 (\<lambda>v e. e\<lparr>seller_2 := Some v\<rparr>) @
            assign s3 (\<lambda>v e. e\<lparr>seller_3 := Some v\<rparr>) @
            assign s4 (\<lambda>v e. e\<lparr>seller_4 := Some v\<rparr>) @
            assign tt (\<lambda>v e. e\<lparr>today_total := Some v\<rparr>) @
            assign tb (\<lambda>v e. e\<lparr>today_balance := Some v\<rparr>)
      in if updates = [] then (False, d)
         else
           (let updates = updates @ [\<lambda>e. e\<lparr>updated_at := now\<rparr>];
                rowcount = length (filter (\<lambda>e. rowid e = entry_id) (rows d))
            in (rowcount > 0,
                d\<lparr>rows := map (\<lambda>e. if rowid e = entry_id then fold (\<lambda>f. f) updates e else e)
                               (rows d)\<rparr>)))"

definition update_entry_complete ::
  "database \<Rightarrow> nat \<Rightarrow> int \<Rightarrow> string \<Rightarrow> real option \<Rightarrow> real option \<Rightarrow> real option \<Rightarrow>
   real option \<Rightarrow> real option \<Rightarrow> real option \<Rightarrow> real option \<Rightarrow> real option \<Rightarrow> bool \<times> database" where
  "update_entry_complete d now entry_id nm pb pt s1 s2 s3 s4 tt tb =
     (let rowcount = length (filter (\<lambda>e. rowid e = entry_id) (rows d))
      in (rowcount > 0,
          d\<lparr>rows := map (\<lambda>e. if rowid e = entry_id
                               then e\<lparr>name := nm, previous_balance := pb, previous_total := pt,
                                      seller_1 := s1, seller_2 := s2, seller_3 := s3,
                                      seller_4 := s4, today_total := tt, today_balance := tb,
                                      updated_at := now\<rparr>
                               else e)
                         (rows d)\<rparr>))"

definition delete_entry :: "database \<Rightarrow> int \<Rightarrow> bool \<times> database" where
  "delete_entry d entry_id =
     (let rowcount = length (filter (\<lambda>e. rowid e = entry_id) (rows d))
      in (rowcount > 0, d\<lparr>rows := filter (\<lambda>e. rowid e \<noteq> entry_id) (rows d)\<rparr>))"

text \<open>\<open>WHERE name LIKE ?\<close> with the parameter \<open>f"%{name}%"\<close>.\<close>

definition search_by_name :: "database \<Rightarrow> string \<Rightarrow> entry list" where
  "search_by_name d nm =
     order_by_updated_at_desc
       (filter (\<lambda>e. like ([CHR ''%''] @ nm @ [CHR ''%'']) (name e)) (rows d))"

text \<open>
  The row a successful \<open>update_entry\<close> is to leave in place of the row \<open>e\<close>:
  every field with a supplied value holds that value, every field without one holds what
  it held in \<open>e\<close>, and \<open>updated_at\<close> is the time of the call. It is stated from the
  contract of the partial update, to compare the code with.
\<close>

definition partially_updated ::
  "nat \<Rightarrow> string option \<Rightarrow> real option \<Rightarrow> real option \<Rightarrow> real option \<Rightarrow> real option \<Rightarrow>
   real option \<Rightarrow> real option \<Rightarrow> real option \<Rightarrow> real option \<Rightarrow> entry \<Rightarrow> entry" where
  "partially_updated t nm pb pt s1 s2 s3 s4 tt tb e =
     e\<lparr>name := (case nm of None \<Rightarrow> name e | Some v \<Rightarrow> v),
       previous_balance := (case pb of None \<Rightarrow> previous_balance e | Some v \<Rightarrow> Some v),
       previous_total := (case pt of None \<Rightarrow> previous_total e | Some v \<Rightarrow> Some v),
       seller_1 := (case s1 of None \<Rightarrow> seller_1 e | Some v \<Rightarrow> Some v),
       seller_2 := (case s2 of None \<Rightarrow> seller_2 e | Some v \<Rightarrow> Some v),
       seller_3 := (case s3 of None \<Rightarrow> seller_3 e | Some v \<Rightarrow> Some v),
       seller_4 := (case s4 of None \<Rightarrow> seller_4 e | Some v \<Rightarrow> Some v),
       today_total := (case tt of None \<Rightarrow> today_total e | Some v \<Rightarrow> Some v),
       today_balance := (case tb of None \<Rightarrow> today_balance e | Some v \<Rightarrow> Some v),
       updated_at := t\<rparr>"

text \<open>
  A ledger for concrete runs: the empty database after \<open>add_entry("Bob", seller_1=10)\<close>
  at time 5, and the row that call stores.
\<close>

definition bob :: entry where
  "bob = \<lparr>name = ''Bob'', previous_balance = None, previous_total = None,
          seller_1 = Some 10, seller_2 = None, seller_3 = None, seller_4 = None,
          today_total = None, today_balance = None,
          rowid = 1, created_at = 5, updated_at = 5\<rparr>"

definition bob_ledger :: database where
  "bob_ledger =
     snd (add_entry initialize_database 5 ''Bob'' None None (Some 10) None None None None None)"

section \<open>The command-line menu (ledger.py)\<close>

text \<open>
  Python's built-in \<open>float\<close> is a parameter of everything that parses a number: a function
  from the text to the number, \<open>None\<close> where \<open>float\<close> raises ValueError. The lines the
  user types are a list; \<open>input()\<close> takes its head and raises EOFError on the empty list.
\<close>

fun get_float_input :: "(string \<Rightarrow> real option) \<Rightarrow> string list \<Rightarrow> (real option \<times> string list) option" where
  "get_float_input float [] = None"
| "get_float_input float (l # ls) =
     (let v = strip l
      in if v = [] then Some (None, ls)
         else (case float v of
                 Some x \<Rightarrow> Some (Some x, ls)
               | None \<Rightarrow> get_float_input float ls))"

datatype menu_result = EOFError | Name_is_required | Entry_added int

definition add_entry_menu ::
  "(string \<Rightarrow> real option) \<Rightarrow> database \<Rightarrow> nat \<Rightarrow> string list \<Rightarrow> menu_result \<times> database" where
  "add_entry_menu float d now inputs =
     (case inputs of
        [] \<Rightarrow> (EOFError, d)
      | l # i0 \<Rightarrow>
          (let nm = strip l
           in if nm = [] then (Name_is_required, d)
              else
                (case do {
                        (pb, i1) \<leftarrow> get_float_input float i0;
                        (pt, i2) \<leftarrow> get_float_input float i1;
                        (s1, i3) \<leftarrow> get_float_input float i2;
                        (s2, i4) \<leftarrow> get_float_input float i3;
                        (s3, i5) \<leftarrow> get_float_input float i4;
                        (s4, i6) \<leftarrow> get_float_input float i5;
                        (tt, i7) \<leftarrow> get_float_input float i6;
                        (tb, i8) \<leftarrow> get_float_input float i7;
                        Some (add_entry d now nm pb pt s1 s2 s3 s4 tt tb)
                      } of
                   None \<Rightarrow> (EOFError, d)
                 | Some (entry_id, d') \<Rightarrow> (Entry_added entry_id, d'))))"

section \<open>The entry form (ledger_gui.py, EntryDialog)\<close>

text \<open>
  The nine StringVars of the form, in the order of the columns, are a list of nine texts
  in a \<open>Save\<close> click; \<open>show\<close> runs the modal form over the clicks of the user until a
  save succeeds or the form is closed.
\<close>

definition parse_float :: "(string \<Rightarrow> real option) \<Rightarrow> string \<Rightarrow> real option" where
  "parse_float float v = (let v = strip v in if v = [] then None else float v)"

record dialog_vars =
  name_var :: string
  prev_balance_var :: string
  prev_total_var :: string
  seller1_var :: string
  seller2_var :: string
  seller3_var :: string
  seller4_var :: string
  today_total_var :: string
  today_balance_var :: string

definition save :: "(string \<Rightarrow> real option) \<Rightarrow> dialog_vars \<Rightarrow> fields option" where
  "save float vars =
     (let nm = strip (name_var vars)
      in if nm = [] then None
         else Some \<lparr>name = nm,
                    previous_balance = parse_float float (prev_balance_var vars),
                    previous_total = parse_float float (prev_total_var vars),
                    seller_1 = parse_float float (seller1_var vars),
                    seller_2 = parse_float float (seller2_var vars),
                    seller_3 = parse_float float (seller3_var vars),
                    seller_4 = parse_float float (seller4_var vars),
                    today_total = parse_float float (today_total_var vars),
                    today_balance = parse_float float (today_balance_var vars)\<rparr>)"

datatype button = Save dialog_vars | Cancel

fun show_dialog :: "(string \<Rightarrow> real option) \<Rightarrow> button list \<Rightarrow> fields option" where
  "show_dialog float [] = None"
| "show_dialog float (Cancel # bs) = None"
| "show_dialog float (Save vars # bs) =
     (case save float vars of
        Some result \<Rightarrow> Some result
      | None \<Rightarrow> show_dialog float bs)"

section \<open>The inline editor (ledger_gui.py, SettlementLedgerGUI)\<close>

type_synonym item = nat

type_synonym widget = nat

datatype error_message = Cannot_be_empty string | Failed_to_update string | Entry_not_found

datatype status = Ready | Total_entries nat | Updated_successfully string | Entry_updated_successfully

text \<open>
  The state of the window that the inline editor reads and writes: the database, the
  rows of the Treeview (each item with its first value, the id of the entry it shows;
  the formatted cell texts are presentation and not modelled), the four \<open>editing_*\<close>
  attributes (\<open>editing_column_index\<close> is \<open>None\<close> while the attribute does not exist), the
  Entry widgets that exist (created and not destroyed), the error dialogs shown, the
  status bar, and the number of \<open>_check_focus_out\<close> callbacks that \<open>after_idle\<close> has
  scheduled and Tk has not run yet. \<open>next_item\<close> and \<open>next_widget\<close> are Tk's counters for
  the names of new items and widgets.
\<close>

record gui =
  db :: database
  tree :: "(item \<times> int) list"
  next_item :: item
  editing_entry :: "widget option"
  editing_item :: "item option"
  editing_column :: "string option"
  editing_column_index :: "int option"
  entries :: "widget list"
  next_widget :: widget
  errors :: "error_message list"
  status_var :: status
  idle :: nat

text \<open>
  What the world answers during one call of a handler: the clock, the text
  \<open>Entry.get()\<close> returns, whether \<open>bbox\<close> of the cell is non-empty (the cell is on screen),
  the widget \<open>focus_get()\<close> returns, whether the store raises on this call, the selected
  items of the Treeview, and the clicks of the user in the entry form if it opens.
\<close>

record env =
  now :: nat
  typed :: string
  visible :: bool
  focus :: "widget option"
  store_error :: bool
  selection :: "item list"
  dialog :: "button list"

definition columns :: "string list" where
  "columns = [''ID'', ''Date (PH time)'', ''Name'', ''Prev Balance'', ''Prev Total'', ''Seller 1'',
              ''Seller 2'', ''Seller 3'', ''Seller 4'', ''Today Total'', ''Today Balance'']"

definition column_to_field :: "(string \<times> string) list" where
  "column_to_field =
     [(''Name'', ''name''),
      (''Prev Balance'', ''previous_balance''),
      (''Prev Total'', ''previous_total''),
      (''Seller 1'', ''seller_1''),
      (''Seller 2'', ''seller_2''),
      (''Seller 3'', ''seller_3''),
      (''Seller 4'', ''seller_4''),
      (''Today Total'', ''today_total''),
      (''Today Balance'', ''today_balance'')]"

definition non_editable_columns :: "string list" where
  "non_editable_columns = [''ID'', ''Date (PH time)'']"

definition currency_columns :: "string list" where
  "currency_columns = [''Prev Balance'', ''Prev Total'', ''Seller 1'', ''Seller 2'',
                       ''Seller 3'', ''Seller 4'', ''Today Total'', ''Today Balance'']"

definition parse_currency :: "(string \<Rightarrow> real option) \<Rightarrow> string \<Rightarrow> real option" where
  "parse_currency float value_str =
     (if value_str = [] \<or> strip value_str = [] then None
      else
        (let cleaned = strip (filter (\<lambda>c. c \<noteq> CHR '','')
                                (filter (\<lambda>c. c \<noteq> CHR ''$'') (strip value_str)))
         in if cleaned = [] then None else float cleaned))"

definition refresh_table :: "gui \<Rightarrow> gui" where
  "refresh_table g =
     (let es = get_all_entries (db g)
      in g\<lparr>tree := zip [next_item g ..< next_item g + length es] (map rowid es),
           next_item := next_item g + length es,
           status_var := Total_entries (length es)\<rparr>)"

definition create_widgets :: "database \<Rightarrow> gui" where
  "create_widgets d =
     \<lparr>db = d, tree = [], next_item = 1, editing_entry = None, editing_item = None,
      editing_column = None, editing_column_index = None, entries = [], next_widget = 1,
      errors = [], status_var = Ready, idle = 0\<rparr>"

definition init_gui :: "database \<Rightarrow> gui" where
  "init_gui d = refresh_table (create_widgets d)"

definition cancel_inline_edit :: "gui \<Rightarrow> gui" where
  "cancel_inline_edit g =
     (case editing_entry g of
        None \<Rightarrow> g
      | Some w \<Rightarrow>
          g\<lparr>entries := removeAll w (entries g), editing_entry := None, editing_item := None,
            editing_column := None, editing_column_index := None\<rparr>)"

text \<open>
  A handler that raises an exception it does not catch stops there: Tk reports the
  traceback and the window goes on in the state reached so far. \<open>tree.item\<close> raises on an
  item the Treeview does not hold.
\<close>

definition start_inline_edit :: "env \<Rightarrow> gui \<Rightarrow> item \<Rightarrow> string \<Rightarrow> int \<Rightarrow> gui" where
  "start_inline_edit v g item column_name column_index =
     (case map_of (tree g) item of
        None \<Rightarrow> g
      | Some entry_id \<Rightarrow>
          if column_index \<ge> int (length columns) then g
          else if \<not> visible v then g
          else
            (let entry = next_widget g
             in g\<lparr>entries := entries g @ [entry], next_widget := entry + 1,
                  editing_entry := Some entry, editing_item := Some item,
                  editing_column := Some column_name,
                  editing_column_index := Some column_index\<rparr>))"

text \<open>
  \<open>self.db.update_entry(entry_id, **{field_name: update_value})\<close>: the one keyword
  argument goes to the parameter of its name, every other parameter keeps its default
  \<open>None\<close>. The value is a text for \<open>name\<close> and an amount or \<open>None\<close> for the others.
\<close>

definition update_entry_kw ::
  "database \<Rightarrow> nat \<Rightarrow> int \<Rightarrow> string \<Rightarrow> string option \<Rightarrow> real option \<Rightarrow> bool \<times> database" where
  "update_entry_kw d t entry_id field_name txt amt =
     (if field_name = ''name'' then
        update_entry d t entry_id txt None None None None None None None None
      else if field_name = ''previous_balance'' then
        update_entry d t entry_id None amt None None None None None None None
      else if field_name = ''previous_total'' then
        update_entry d t entry_id None None amt None None None None None None
      else if field_name = ''seller_1'' then
        update_entry d t entry_id None None None amt None None None None None
      else if field_name = ''seller_2'' then
        update_entry d t entry_id None None None None amt None None None None
      else if field_name = ''seller_3'' then
        update_entry d t entry_id None None None None None amt None None None
      else if field_name = ''seller_4'' then
        update_entry d t entry_id None None None None None None amt None None
      else if field_name = ''today_total'' then
        update_entry d t entry_id None None None None None None None amt None
      else if field_name = ''today_balance'' then
        update_entry d t entry_id None None None None None None None None amt
      else (False, d))"

text \<open>
  \<open>_finish_inline_edit\<close>. \<open>Entry.get()\<close> raises on a widget that was destroyed, which the
  handler catches. The validation of the name, the store raising, and the update follow
  in the order of the source; both failures show an error and open the same cell again.
  The return value of \<open>update_entry\<close> is not looked at. The last case, an editor without
  its item, column or index, does not arise: the four attributes are set and cleared
  together.
\<close>

definition finish_inline_edit :: "(string \<Rightarrow> real option) \<Rightarrow> env \<Rightarrow> gui \<Rightarrow> gui" where
  "finish_inline_edit float v g =
     (case (editing_entry g, editing_item g, editing_column g, editing_column_index g) of
        (Some entry_widget, Some item, Some column, Some column_index) \<Rightarrow>
          if entry_widget \<notin> set (entries g) then cancel_inline_edit g
          else
            (let new_value = strip (typed v);
                 g = cancel_inline_edit g
             in case map_of (tree g) item of
                  None \<Rightarrow> g
                | Some entry_id \<Rightarrow>
                    (case map_of column_to_field column of
                       None \<Rightarrow> g
                     | Some field_name \<Rightarrow>
                         if column \<notin> set currency_columns \<and> new_value = [] then
                           start_inline_edit v (g\<lparr>errors := errors g @ [Cannot_be_empty column]\<rparr>)
                             item column column_index
                         else if store_error v then
                           start_inline_edit v (g\<lparr>errors := errors g @ [Failed_to_update column]\<rparr>)
                             item column column_index
                         else
                           (let update = (if column \<in> set currency_columns
                                          then update_entry_kw (db g) (now v) entry_id field_name
                                                 None (parse_currency float new_value)
                                          else update_entry_kw (db g) (now v) entry_id field_name
                                                 (Some new_value) None)
                            in (refresh_table (g\<lparr>db := snd update\<rparr>))
                                 \<lparr>status_var := Updated_successfully column\<rparr>)))
      | _ \<Rightarrow> g)"

definition check_focus_out :: "(string \<Rightarrow> real option) \<Rightarrow> env \<Rightarrow> gui \<Rightarrow> gui" where
  "check_focus_out float v g =
     (case editing_entry g of
        None \<Rightarrow> g
      | Some w \<Rightarrow>
          if w \<notin> set (entries g) then g\<lparr>editing_entry := None\<rparr>
          else if focus v \<noteq> Some w then finish_inline_edit float v g
          else g)"

definition get_selected_entry_id :: "env \<Rightarrow> gui \<Rightarrow> int option" where
  "get_selected_entry_id v g =
     (case selection v of
        [] \<Rightarrow> None
      | i # _ \<Rightarrow> map_of (tree g) i)"

definition edit_entry :: "(string \<Rightarrow> real option) \<Rightarrow> env \<Rightarrow> gui \<Rightarrow> gui" where
  "edit_entry float v g =
     (case get_selected_entry_id v g of
        None \<Rightarrow> g
      | Some entry_id \<Rightarrow>
          if entry_id = 0 then g
          else
            (case get_entry (db g) entry_id of
               None \<Rightarrow> g\<lparr>errors := errors g @ [Entry_not_found]\<rparr>
             | Some entry \<Rightarrow>
                 (case show_dialog float (dialog v) of
                    None \<Rightarrow> g
                  | Some result \<Rightarrow>
                      if store_error v then g\<lparr>errors := errors g @ [Failed_to_update ''entry'']\<rparr>
                      else
                        (let update = update_entry_complete (db g) (now v) entry_id (name result)
                                        (previous_balance result) (previous_total result)
                                        (seller_1 result) (seller_2 result) (seller_3 result)
                                        (seller_4 result) (today_total result)
                                        (today_balance result)
                         in (refresh_table (g\<lparr>db := snd update\<rparr>))
                              \<lparr>status_var := Entry_updated_successfully\<rparr>))))"

text \<open>
  \<open>region\<close>, \<open>item\<close> and \<open>column\<close> are what \<open>identify_region\<close>, \<open>identify_row\<close> and
  \<open>identify_column\<close> return for the position of the click: \<open>item\<close> is \<open>None\<close> for the
  empty string and \<open>column\<close> is \<open>Some n\<close> for the text \<open>#n\<close>.
\<close>

definition on_tree_double_click ::
  "(string \<Rightarrow> real option) \<Rightarrow> env \<Rightarrow> gui \<Rightarrow> string \<Rightarrow> item option \<Rightarrow> nat option \<Rightarrow> gui" where
  "on_tree_double_click float v g region item column =
     (let g = (if editing_entry g \<noteq> None then cancel_inline_edit g else g)
      in if region \<noteq> ''cell'' then g
         else
           (case (item, column) of
              (Some item, Some column) \<Rightarrow>
                (let column_index = int column - 1
                 in if column_index < 0 \<or> column_index \<ge> int (length columns) then g
                    else
                      (let column_name = columns ! nat column_index
                       in if column_name \<in> set non_editable_columns then
                            (if column_name = ''ID'' then edit_entry float v g else g)
                          else start_inline_edit v g item column_name column_index))
            | _ \<Rightarrow> g))"

text \<open>
  The events of the inline editor, each one call of a handler by Tk: a double click on
  the Treeview, Return in the editor (\<open>Finish\<close>), Escape (\<open>Cancel_edit\<close>), the
  \<open>FocusOut\<close> notification of the editor, whose binding only schedules the check with
  \<open>after_idle\<close>, and Tk running one scheduled check once no event is pending (\<open>Idle\<close>).
\<close>

datatype event =
    Double_click string "item option" "nat option"
  | Finish
  | Cancel_edit
  | Focus_out
  | Idle

definition step :: "(string \<Rightarrow> real option) \<Rightarrow> gui \<Rightarrow> env \<times> event \<Rightarrow> gui" where
  "step float g ve =
     (case ve of
        (v, Double_click region item column) \<Rightarrow> on_tree_double_click float v g region item column
      | (v, Finish) \<Rightarrow> finish_inline_edit float v g
      | (v, Cancel_edit) \<Rightarrow> cancel_inline_edit g
      | (v, Focus_out) \<Rightarrow> g\<lparr>idle := idle g + 1\<rparr>
      | (v, Idle) \<Rightarrow>
          if idle g = 0 then g else check_focus_out float v (g\<lparr>idle := idle g - 1\<rparr>))"

definition run :: "(string \<Rightarrow> real option) \<Rightarrow> gui \<Rightarrow> (env \<times> event) list \<Rightarrow> gui" where
  "run float g ves = foldl (step float) g ves"

text \<open>
  Single editor: the Entry widgets that exist are exactly the one \<open>editing_entry\<close>
  refers to, or none while it is \<open>None\<close>; the other three attributes are set
  together with it; and the names of the widgets that exist are below Tk's counter.
\<close>

definition single_editor :: "gui \<Rightarrow> bool" where
  "single_editor g =
     (entries g = (case editing_entry g of None \<Rightarrow> [] | Some w \<Rightarrow> [w]) \<and>
      (editing_entry g = None) = (editing_item g = None) \<and>
      (editing_entry g = None) = (editing_column g = None) \<and>
      (editing_entry g = None) = (editing_column_index g = None) \<and>
      list_all (\<lambda>w. w < next_widget g) (entries g))"

text \<open>
  The ways the editor changes between two states of the window: it stays as it is; or it
  goes from Editing to Idle (no Entry widget is left); or it comes to Editing from Idle
  with a new Entry widget, the only one that exists. In all of them the counter of
  widget names moves on only for a new widget.
\<close>

definition editor_transition :: "gui \<Rightarrow> gui \<Rightarrow> bool" where
  "editor_transition g g' =
     ((editing_entry g' = editing_entry g \<and> entries g' = entries g \<and>
       next_widget g' = next_widget g) \<or>
      (editing_entry g' = None \<and> entries g' = [] \<and> next_widget g' = next_widget g) \<or>
      (editing_entry g' = Some (next_widget g) \<and> entries g' = [next_widget g] \<and>
       next_widget g' = next_widget g + 1))"

text \<open>
  For concrete runs, \<open>decimal_literal\<close> stands in for \<open>float\<close>: it reads an unsigned decimal
  literal (digits, at most one point, at least one digit) to the number \<open>float\<close> reads it
  to, and rejects every other text. Python's \<open>float\<close> reads more (signs, exponents,
  \<open>inf\<close>, \<open>nan\<close>); the theorems below hold for every \<open>float\<close>.
\<close>

fun digits_value :: "nat \<Rightarrow> string \<Rightarrow> nat option" where
  "digits_value a [] = Some a"
| "digits_value a (c # cs) =
     (case map_of (zip ''0123456789'' [0, 1, 2, 3, 4, 5, 6, 7, 8, 9]) c of
        None \<Rightarrow> None
      | Some k \<Rightarrow> digits_value (10 * a + k) cs)"

definition decimal_literal :: "string \<Rightarrow> real option" where
  "decimal_literal s =
     (let ip = takeWhile (\<lambda>c. c \<noteq> CHR ''.'') s;
          fp = drop 1 (dropWhile (\<lambda>c. c \<noteq> CHR ''.'') s)
      in if ip = [] \<and> fp = [] then None
         else (case (digits_value 0 ip, digits_value 0 fp) of
                 (Some a, Some b) \<Rightarrow> Some (real a + real b / 10 ^ length fp)
               | _ \<Rightarrow> None))"

text \<open>Every record of the table has a non-empty name.\<close>

definition names_nonempty :: "database \<Rightarrow> bool" where
  "names_nonempty d = list_all (\<lambda>e. name e \<noteq> []) (rows d)"

text \<open>A search text is literal when it holds neither of the two wildcards of \<open>LIKE\<close>.\<close>

definition literal :: "string \<Rightarrow> bool" where
  "literal s = list_all (\<lambda>c. c \<noteq> CHR ''%'' \<and> c \<noteq> CHR ''_'') s"

text \<open>
  A ledger for concrete searches: the three names of the specification's example, added
  at the times 1, 2 and 3.
\<close>

definition shop_ledger :: database where
  "shop_ledger =
     snd (add_entry
       (snd (add_entry
         (snd (add_entry initialize_database 1 ''Bob's Store'' None None None None None None None None))
         2 ''rob'' None None None None None None None None))
       3 ''bobby'' None None None None None None None None)"

text \<open>
  A quiet world for concrete runs of the window: the time is 9, the editor holds the
  given text, the cell is on screen, the focus is outside the window, the store works,
  no row is selected and nobody clicks in the entry form.
\<close>

definition typing :: "string \<Rightarrow> env" where
  "typing txt = \<lparr>now = 9, typed = txt, visible = True, focus = None, store_error = False,
                 selection = [], dialog = []\<rparr>"

text \<open>Two states of the window with the same editor: they may differ in everything else.\<close>

definition same_editor :: "gui \<Rightarrow> gui \<Rightarrow> bool" where
  "same_editor g g' =
     (editing_entry g' = editing_entry g \<and> editing_item g' = editing_item g \<and>
      editing_column g' = editing_column g \<and> editing_column_index g' = editing_column_index g \<and>
      entries g' = entries g \<and> next_widget g' = next_widget g)"

text \<open>
  The window on the ledger of Bob after a double click on the cell \<open>Seller 1\<close> of its row:
  the cell is Editing.
\<close>

definition editing_seller_1 :: gui where
  "editing_seller_1 =
     run decimal_literal (init_gui bob_ledger) [(typing [], Double_click ''cell'' (Some 1) (Some 6))]"

section \<open>The store: what the operations compute\<close>

lemma fold_assign: "fold (\<lambda>f. f) (assign x f) e = (case x of None \<Rightarrow> e | Some v \<Rightarrow> f v e)"
  by (cases x) simp_all

lemma assign_Nil_iff: "(assign x f = []) = (x = None)"
  by (cases x) simp_all

lemma case_name: "(case x of None \<Rightarrow> e | Some v \<Rightarrow> e\<lparr>name := v\<rparr>) = e\<lparr>name := (case x of None \<Rightarrow> name e | Some v \<Rightarrow> v)\<rparr>"
  by (cases x) simp_all
lemma case_previous_balance: "(case x of None \<Rightarrow> e | Some v \<Rightarrow> e\<lparr>previous_balance := Some v\<rparr>) = e\<lparr>previous_balance := (case x of None \<Rightarrow> previous_balance e | Some v \<Rightarrow> Some v)\<rparr>"
  by (cases x) simp_all
lemma case_previous_total: "(case x of None \<Rightarrow> e | Some v \<Rightarrow> e\<lparr>previous_total := Some v\<rparr>) = e\<lparr>previous_total := (case x of None \<Rightarrow> previous_total e | Some v \<Rightarrow> Some v)\<rparr>"
  by (cases x) simp_all
lemma case_seller_1: "(case x of None \<Rightarrow> e | Some v \<Rightarrow> e\<lparr>seller_1 := Some v\<rparr>) = e\<lparr>seller_1 := (case x of None \<Rightarrow> seller_1 e | Some v \<Rightarrow> Some v)\<rparr>"
  by (cases x) simp_all
lemma case_seller_2: "(case x of None \<Rightarrow> e | Some v \<Rightarrow> e\<lparr>seller_2 := Some v\<rparr>) = e\<lparr>seller_2 := (case x of None \<Rightarrow> seller_2 e | Some v \<Rightarrow> Some v)\<rparr>"
  by (cases x) simp_all
lemma case_seller_3: "(case x of None \<Rightarrow> e | Some v \<Rightarrow> e\<lparr>seller_3 := Some v\<rparr>) = e\<lparr>seller_3 := (case x of None \<Rightarrow> seller_3 e | Some v \<Rightarrow> Some v)\<rparr>"
  by (cases x) simp_all
lemma case_seller_4: "(case x of None \<Rightarrow> e | Some v \<Rightarrow> e\<lparr>seller_4 := Some v\<rparr>) = e\<lparr>seller_4 := (case x of None \<Rightarrow> seller_4 e | Some v \<Rightarrow> Some v)\<rparr>"
  by (cases x) simp_all
lemma case_today_total: "(case x of None \<Rightarrow> e | Some v \<Rightarrow> e\<lparr>today_total := Some v\<rparr>) = e\<lparr>today_total := (case x of None \<Rightarrow> today_total e | Some v \<Rightarrow> Some v)\<rparr>"
  by (cases x) simp_all
lemma case_today_balance: "(case x of None \<Rightarrow> e | Some v \<Rightarrow> e\<lparr>today_balance := Some v\<rparr>) = e\<lparr>today_balance := (case x of None \<Rightarrow> today_balance e | Some v \<Rightarrow> Some v)\<rparr>"
  by (cases x) simp_all

lemmas case_fields = case_name case_previous_balance case_previous_total case_seller_1 case_seller_2
  case_seller_3 case_seller_4 case_today_total case_today_balance

lemma fold_updates:
  "fold (\<lambda>f. f)
     ((assign nm (\<lambda>v e. e\<lparr>name := v\<rparr>) @
       assign pb (\<lambda>v e. e\<lparr>previous_balance := Some v\<rparr>) @
       assign pt (\<lambda>v e. e\<lparr>previous_total := Some v\<rparr>) @
       assign s1 (\<lambda>v e. e\<lparr>seller_1 := Some v\<rparr>) @
       assign s2 (\<lambda>v e. e\<lparr>seller_2 := Some v\<rparr>) @
       assign s3 (\<lambda>v e. e\<lparr>seller_3 := Some v\<rparr>) @
       assign s4 (\<lambda>v e. e\<lparr>seller_4 := Some v\<rparr>) @
       assign tt (\<lambda>v e. e\<lparr>today_total := Some v\<rparr>) @
       assign tb (\<lambda>v e. e\<lparr>today_balance := Some v\<rparr>)) @ [\<lambda>e. e\<lparr>updated_at := t\<rparr>]) e
   = partially_updated t nm pb pt s1 s2 s3 s4 tt tb e"
  by (simp add: fold_assign case_fields partially_updated_def cong: option.case_cong)

lemma find_map_rowid:
  assumes "\<And>e. rowid (g e) = rowid e"
  shows "find (\<lambda>e. rowid e = j) (map (\<lambda>e. if rowid e = i then g e else e) xs) =
         map_option (\<lambda>e. if rowid e = i then g e else e) (find (\<lambda>e. rowid e = j) xs)"
  using assms by (induction xs) auto

lemma filter_Nil_find: "(filter P xs = []) = (find P xs = None)"
  by (induction xs) auto

lemma rowcount_find: "(length (filter P xs) > 0) = (find P xs \<noteq> None)"
  by (simp add: filter_Nil_find)

lemma map_no_hit: "find (\<lambda>e. rowid e = i) xs = None \<Longrightarrow> map (\<lambda>e. if rowid e = i then g e else e) xs = xs"
  by (rule map_idI) (auto simp: find_None_iff)

lemma update_entry_eq:
  "update_entry d t i nm pb pt s1 s2 s3 s4 tt tb =
     (if nm = None \<and> pb = None \<and> pt = None \<and> s1 = None \<and> s2 = None \<and> s3 = None \<and> s4 = None \<and> tt = None \<and> tb = None
      then (False, d)
      else (get_entry d i \<noteq> None,
            d\<lparr>rows := map (\<lambda>e. if rowid e = i then partially_updated t nm pb pt s1 s2 s3 s4 tt tb e else e) (rows d)\<rparr>))"
  unfolding update_entry_def Let_def fold_updates
  by (simp add: assign_Nil_iff filter_Nil_find get_entry_def)

lemma rowid_partially_updated: "rowid (partially_updated t nm pb pt s1 s2 s3 s4 tt tb e) = rowid e"
  by (simp add: partially_updated_def)

lemma snd_update_entry:
  assumes "\<not> (nm = None \<and> pb = None \<and> pt = None \<and> s1 = None \<and> s2 = None \<and> s3 = None \<and> s4 = None \<and> tt = None \<and> tb = None)"
  shows "snd (update_entry d t i nm pb pt s1 s2 s3 s4 tt tb) =
        d\<lparr>rows := map (\<lambda>e. if rowid e = i then partially_updated t nm pb pt s1 s2 s3 s4 tt tb e else e) (rows d)\<rparr>"
  apply (subst update_entry_eq)
  apply (subst if_not_P [OF assms])
  apply (rule snd_conv)
  done

lemma get_entry_update:
  assumes "\<not> (nm = None \<and> pb = None \<and> pt = None \<and> s1 = None \<and> s2 = None \<and> s3 = None \<and> s4 = None \<and> tt = None \<and> tb = None)"
  shows "get_entry (snd (update_entry d t i nm pb pt s1 s2 s3 s4 tt tb)) j =
         map_option (\<lambda>e. if rowid e = i then partially_updated t nm pb pt s1 s2 s3 s4 tt tb e else e) (get_entry d j)"
  unfolding snd_update_entry [OF assms] get_entry_def
  by (simp add: find_map_rowid [OF rowid_partially_updated])

lemma find_Some_rowid: "find (\<lambda>e. rowid e = i) xs = Some e \<Longrightarrow> rowid e = i"
  by (auto simp: find_Some_iff)

lemma get_entry_rowid: "get_entry d i = Some e \<Longrightarrow> rowid e = i"
  unfolding get_entry_def by (rule find_Some_rowid)

text \<open>
  Claim C4. For an id that exists and at least one supplied field, \<open>update_entry\<close> succeeds
  and leaves under that id the old row with exactly the supplied fields set to the
  supplied values and \<open>updated_at\<close> set to the time of the call: every field that was not
  supplied, the id and \<open>created_at\<close> hold what they held (so a field that held a value
  and is not mentioned is not cleared), and every other record is as it was.
\<close>

theorem update_entry_changes_supplied_fields_only:
  assumes "get_entry d i = Some e"
    and "\<not> (nm = None \<and> pb = None \<and> pt = None \<and> s1 = None \<and> s2 = None \<and> s3 = None \<and> s4 = None \<and> tt = None \<and> tb = None)"
  shows "fst (update_entry d t i nm pb pt s1 s2 s3 s4 tt tb) \<and>
         get_entry (snd (update_entry d t i nm pb pt s1 s2 s3 s4 tt tb)) i =
           Some (partially_updated t nm pb pt s1 s2 s3 s4 tt tb e) \<and>
         (\<forall>j. j \<noteq> i \<longrightarrow> get_entry (snd (update_entry d t i nm pb pt s1 s2 s3 s4 tt tb)) j = get_entry d j)"
proof -
  have id: "rowid e = i" using assms(1) by (rule get_entry_rowid)
  have a: "fst (update_entry d t i nm pb pt s1 s2 s3 s4 tt tb)"
    apply (subst update_entry_eq)
    apply (subst if_not_P [OF assms(2)])
    apply (simp add: assms(1))
    done
  have b: "get_entry (snd (update_entry d t i nm pb pt s1 s2 s3 s4 tt tb)) i =
           Some (partially_updated t nm pb pt s1 s2 s3 s4 tt tb e)"
    by (simp add: get_entry_update [OF assms(2)] assms(1) id)
  have c: "get_entry (snd (update_entry d t i nm pb pt s1 s2 s3 s4 tt tb)) j = get_entry d j" if "j \<noteq> i" for j
  proof (cases "get_entry d j")
    case None
    then show ?thesis by (simp add: get_entry_update [OF assms(2)])
  next
    case (Some x)
    then have "rowid x = j" by (rule get_entry_rowid)
    with Some that show ?thesis by (simp add: get_entry_update [OF assms(2)])
  qed
  from a b c show ?thesis by blast
qed

lemma get_entry_bob_ledger: "get_entry bob_ledger 1 = Some bob"
  by (simp add: bob_ledger_def bob_def add_entry_def initialize_database_def next_rowid_def get_entry_def)

text \<open>
  The claim on the ledger of Bob: setting \<open>seller_2\<close> to 5 at time 9 leaves \<open>seller_1\<close>
  at 10.
\<close>

theorem update_entry_changes_supplied_fields_only_witness:
  "get_entry bob_ledger 1 = Some bob \<and>
   fst (update_entry bob_ledger 9 1 None None None None (Some 5) None None None None) \<and>
   get_entry (snd (update_entry bob_ledger 9 1 None None None None (Some 5) None None None None)) 1 =
     Some (bob\<lparr>seller_2 := Some 5, updated_at := 9\<rparr>) \<and>
   seller_1 (bob\<lparr>seller_2 := Some 5, updated_at := 9\<rparr>) = Some 10"
proof -
  have h: "get_entry bob_ledger 1 = Some bob" by (rule get_entry_bob_ledger)
  have n: "\<not> (None = (None :: string option) \<and> None = (None :: real option) \<and> None = (None :: real option) \<and> None = (None :: real option) \<and>
     Some 5 = (None :: real option) \<and> None = (None :: real option) \<and> None = (None :: real option) \<and> None = (None :: real option) \<and> None = (None :: real option))"
    by simp
  from update_entry_changes_supplied_fields_only [OF h n, of 9] show ?thesis
    using h by (simp add: partially_updated_def bob_def)
qed

text \<open>
  Claim C5. \<open>update_entry\<close> returns \<open>False\<close> exactly when no record has the id or no
  field is supplied, and whenever it returns \<open>False\<close> the database is the one it was
  given: no field and no \<open>updated_at\<close> has changed.
\<close>

theorem update_entry_false_iff_and_unchanged:
  "(\<not> fst (update_entry d t i nm pb pt s1 s2 s3 s4 tt tb)) =
     (get_entry d i = None \<or>
      (nm = None \<and> pb = None \<and> pt = None \<and> s1 = None \<and> s2 = None \<and> s3 = None \<and> s4 = None \<and> tt = None \<and> tb = None)) \<and>
   (\<not> fst (update_entry d t i nm pb pt s1 s2 s3 s4 tt tb) \<longrightarrow>
      snd (update_entry d t i nm pb pt s1 s2 s3 s4 tt tb) = d)"
proof -
  define empty_mapping where
    "empty_mapping \<longleftrightarrow> nm = None \<and> pb = None \<and> pt = None \<and> s1 = None \<and> s2 = None \<and> s3 = None \<and> s4 = None \<and> tt = None \<and> tb = None"
  define d' where
    "d' = d\<lparr>rows := map (\<lambda>e. if rowid e = i then partially_updated t nm pb pt s1 s2 s3 s4 tt tb e else e) (rows d)\<rparr>"
  have eq: "update_entry d t i nm pb pt s1 s2 s3 s4 tt tb =
              (if empty_mapping then (False, d) else (get_entry d i \<noteq> None, d'))"
    unfolding empty_mapping_def d'_def by (rule update_entry_eq)
  have same: "d' = d" if "get_entry d i = None"
    using that unfolding d'_def by (simp add: get_entry_def map_no_hit)
  have "(\<not> fst (update_entry d t i nm pb pt s1 s2 s3 s4 tt tb)) = (get_entry d i = None \<or> empty_mapping) \<and>
        (\<not> fst (update_entry d t i nm pb pt s1 s2 s3 s4 tt tb) \<longrightarrow>
           snd (update_entry d t i nm pb pt s1 s2 s3 s4 tt tb) = d)"
    unfolding eq using same by (cases empty_mapping) simp_all
  then show ?thesis unfolding empty_mapping_def .
qed

lemma update_entry_complete_eq:
  "update_entry_complete d t i nm pb pt s1 s2 s3 s4 tt tb =
     (get_entry d i \<noteq> None,
      d\<lparr>rows := map (\<lambda>e. if rowid e = i
                         then e\<lparr>name := nm, previous_balance := pb, previous_total := pt,
                                seller_1 := s1, seller_2 := s2, seller_3 := s3,
                                seller_4 := s4, today_total := tt, today_balance := tb,
                                updated_at := t\<rparr>
                         else e) (rows d)\<rparr>)"
  by (simp add: update_entry_complete_def filter_Nil_find get_entry_def)

lemma get_entry_bob_ledger_7: "get_entry bob_ledger 7 = None"
  by (simp add: bob_ledger_def add_entry_def initialize_database_def next_rowid_def get_entry_def)

text \<open>
  On the ledger of Bob: an id that does not exist and an empty mapping both give
  \<open>False\<close> and the same ledger; one supplied field on the id that exists gives \<open>True\<close>.
\<close>

theorem update_entry_false_iff_and_unchanged_witness:
  "get_entry bob_ledger 7 = None \<and>
   \<not> fst (update_entry bob_ledger 9 7 None None None None (Some 5) None None None None) \<and>
   snd (update_entry bob_ledger 9 7 None None None None (Some 5) None None None None) = bob_ledger \<and>
   \<not> fst (update_entry bob_ledger 9 1 None None None None None None None None None) \<and>
   snd (update_entry bob_ledger 9 1 None None None None None None None None None) = bob_ledger \<and>
   fst (update_entry bob_ledger 9 1 None None None None (Some 5) None None None None)"
  using update_entry_false_iff_and_unchanged [of bob_ledger 9 7 None None None None "Some 5" None None None None]
    update_entry_false_iff_and_unchanged [of bob_ledger 9 1 None None None None None None None None None]
    update_entry_false_iff_and_unchanged [of bob_ledger 9 1 None None None None "Some 5" None None None None]
  by (simp add: get_entry_bob_ledger_7 get_entry_bob_ledger)

text \<open>
  Claim C6. For an id that exists, \<open>update_entry_complete\<close> succeeds and leaves under it the
  old row with all nine fields set to the arguments in their positions, so that a field
  given as \<open>None\<close> is cleared whatever it held, and \<open>updated_at\<close> set to the time of the
  call; for an id that does not exist it returns \<open>False\<close> and the database it was given.
\<close>

theorem update_entry_complete_rewrites_all_fields:
  "(get_entry d i = Some e \<longrightarrow>
      fst (update_entry_complete d t i nm pb pt s1 s2 s3 s4 tt tb) \<and>
      get_entry (snd (update_entry_complete d t i nm pb pt s1 s2 s3 s4 tt tb)) i =
        Some (e\<lparr>name := nm, previous_balance := pb, previous_total := pt,
                seller_1 := s1, seller_2 := s2, seller_3 := s3,
                seller_4 := s4, today_total := tt, today_balance := tb,
                updated_at := t\<rparr>)) \<and>
   (get_entry d i = None \<longrightarrow>
      update_entry_complete d t i nm pb pt s1 s2 s3 s4 tt tb = (False, d))"
proof (intro conjI impI)
  assume h: "get_entry d i = Some e"
  then have id: "rowid e = i" by (rule get_entry_rowid)
  show "fst (update_entry_complete d t i nm pb pt s1 s2 s3 s4 tt tb)"
    unfolding update_entry_complete_eq using h by simp
  show "get_entry (snd (update_entry_complete d t i nm pb pt s1 s2 s3 s4 tt tb)) i =
        Some (e\<lparr>name := nm, previous_balance := pb, previous_total := pt,
                seller_1 := s1, seller_2 := s2, seller_3 := s3,
                seller_4 := s4, today_total := tt, today_balance := tb,
                updated_at := t\<rparr>)"
    unfolding update_entry_complete_eq using h id
    by (simp add: get_entry_def find_map_rowid)
next
  assume h: "get_entry d i = None"
  then show "update_entry_complete d t i nm pb pt s1 s2 s3 s4 tt tb = (False, d)"
    unfolding update_entry_complete_eq by (simp add: get_entry_def map_no_hit)
qed

text \<open>
  On the ledger of Bob, whose \<open>seller_1\<close> is 10: the full replace with \<open>seller_1 = None\<close>
  clears it; on the id 7, which does not exist, nothing changes.
\<close>

theorem update_entry_complete_rewrites_all_fields_witness:
  "get_entry bob_ledger 1 = Some bob \<and> seller_1 bob = Some 10 \<and>
   fst (update_entry_complete bob_ledger 9 1 ''Bob'' None None None (Some 5) None None None None) \<and>
   get_entry (snd (update_entry_complete bob_ledger 9 1 ''Bob'' None None None (Some 5) None None None None)) 1 =
     Some (bob\<lparr>seller_1 := None, seller_2 := Some 5, updated_at := 9\<rparr>) \<and>
   get_entry bob_ledger 7 = None \<and>
   update_entry_complete bob_ledger 9 7 ''Bob'' None None None (Some 5) None None None None = (False, bob_ledger)"
  using update_entry_complete_rewrites_all_fields [of bob_ledger 1 bob 9 "''Bob''" None None None "Some 5" None None None None]
    update_entry_complete_rewrites_all_fields [of bob_ledger 7 bob 9 "''Bob''" None None None "Some 5" None None None None]
  by (simp add: get_entry_bob_ledger_7 get_entry_bob_ledger) (simp add: bob_def)

text \<open>
  Claim C10. For an id that exists, \<open>update_entry\<close> with the empty string as the name (and
  nothing else) returns \<open>True\<close> and stores the empty string as the name of the record:
  the empty string is a supplied value, not an absent field.
\<close>

theorem update_entry_stores_empty_name:
  assumes "get_entry d i = Some e"
  shows "fst (update_entry d t i (Some []) None None None None None None None None) \<and>
         get_entry (snd (update_entry d t i (Some []) None None None None None None None None)) i =
           Some (e\<lparr>name := [], updated_at := t\<rparr>)"
proof -
  have n: "\<not> (Some [] = (None :: string option) \<and> None = (None :: real option) \<and> None = (None :: real option) \<and> None = (None :: real option) \<and>
     None = (None :: real option) \<and> None = (None :: real option) \<and> None = (None :: real option) \<and> None = (None :: real option) \<and> None = (None :: real option))"
    by simp
  have id: "rowid e = i" using assms by (rule get_entry_rowid)
  have a: "fst (update_entry d t i (Some []) None None None None None None None None)"
    apply (subst update_entry_eq)
    apply (subst if_not_P [OF n])
    apply (simp add: assms)
    done
  have b: "get_entry (snd (update_entry d t i (Some []) None None None None None None None None)) i =
           Some (partially_updated t (Some []) None None None None None None None None e)"
    by (simp add: get_entry_update [OF n] assms id)
  from a b show ?thesis by (simp add: partially_updated_def)
qed

text \<open>On the ledger of Bob: the name of record 1 becomes the empty string.\<close>

theorem update_entry_stores_empty_name_witness:
  "get_entry bob_ledger 1 = Some bob \<and>
   fst (update_entry bob_ledger 9 1 (Some []) None None None None None None None None) \<and>
   get_entry (snd (update_entry bob_ledger 9 1 (Some []) None None None None None None None None)) 1 =
     Some (bob\<lparr>name := [], updated_at := 9\<rparr>)"
  using update_entry_stores_empty_name [OF get_entry_bob_ledger, of 9] get_entry_bob_ledger by simp

lemma fold_max_ge: "(a::int) \<le> fold max xs a"
proof (induction xs arbitrary: a)
  case Nil
  show ?case by simp
next
  case (Cons x xs)
  have "a \<le> max x a" by simp
  also have "max x a \<le> fold max xs (max x a)" by (rule Cons.IH)
  finally show ?case by simp
qed

lemma fold_max_ge_elem: "x \<in> set xs \<Longrightarrow> (x::int) \<le> fold max xs a"
proof (induction xs arbitrary: a)
  case Nil
  then show ?case by simp
next
  case (Cons y ys)
  show ?case
  proof (cases "x = y")
    case True
    have "x \<le> max y a" using True by simp
    also have "max y a \<le> fold max ys (max y a)" by (rule fold_max_ge)
    finally show ?thesis by simp
  next
    case False
    with Cons.prems have "x \<in> set ys" by simp
    then show ?thesis using Cons.IH by simp
  qed
qed

lemma next_rowid_fresh: "next_rowid d \<notin> set (map rowid (rows d))"
proof
  assume "next_rowid d \<in> set (map rowid (rows d))"
  then have "next_rowid d \<le> fold max (map rowid (rows d)) (seq d)" by (rule fold_max_ge_elem)
  then show False by (simp add: next_rowid_def)
qed

lemma next_rowid_gt_seq: "seq d < next_rowid d"
  using fold_max_ge [of "seq d" "map rowid (rows d)"] by (simp add: next_rowid_def)

lemma find_append_fresh:
  "P r \<Longrightarrow> find P xs = None \<Longrightarrow> find P (xs @ [r]) = Some r"
  by (induction xs) (simp_all split: if_split_asm)

lemma find_rowid_None: "i \<notin> set (map rowid xs) \<Longrightarrow> find (\<lambda>e. rowid e = i) xs = None"
  by (auto simp: find_None_iff)

lemma add_entry_eq:
  "add_entry d t nm pb pt s1 s2 s3 s4 tt tb =
     (next_rowid d,
      d\<lparr>rows := rows d @ [\<lparr>name = nm, previous_balance = pb, previous_total = pt,
                 seller_1 = s1, seller_2 = s2, seller_3 = s3, seller_4 = s4,
                 today_total = tt, today_balance = tb,
                 rowid = next_rowid d, created_at = t, updated_at = t\<rparr>], seq := next_rowid d\<rparr>)"
  by (simp add: add_entry_def Let_def)

lemma get_entry_add_entry:
  "get_entry (snd (add_entry d t nm pb pt s1 s2 s3 s4 tt tb)) (fst (add_entry d t nm pb pt s1 s2 s3 s4 tt tb)) =
     Some \<lparr>name = nm, previous_balance = pb, previous_total = pt,
                 seller_1 = s1, seller_2 = s2, seller_3 = s3, seller_4 = s4,
                 today_total = tt, today_balance = tb,
                 rowid = next_rowid d, created_at = t, updated_at = t\<rparr>"
  unfolding add_entry_eq get_entry_def
  by (simp add: find_append_fresh find_rowid_None [OF next_rowid_fresh])

lemma add_entry_menu_empty_name:
  "strip l = [] \<Longrightarrow> add_entry_menu float d t (l # ls) = (Name_is_required, d)"
  by (simp add: add_entry_menu_def)

lemma get_float_input_None_iff:
  "(get_float_input float ls = None) =
     list_all (\<lambda>x. strip x \<noteq> [] \<and> float (strip x) = None) ls"
  by (induction ls) (simp_all add: Let_def split: option.split)

lemma add_entry_menu_reads:
  assumes "strip l \<noteq> []"
    and "get_float_input float ls = Some (pb, i1)"
    and "get_float_input float i1 = Some (pt, i2)"
    and "get_float_input float i2 = Some (s1, i3)"
    and "get_float_input float i3 = Some (s2, i4)"
    and "get_float_input float i4 = Some (s3, i5)"
    and "get_float_input float i5 = Some (s4, i6)"
    and "get_float_input float i6 = Some (tt, i7)"
    and "get_float_input float i7 = Some (tb, i8)"
  shows "add_entry_menu float d t (l # ls) =
           (Entry_added (fst (add_entry d t (strip l) pb pt s1 s2 s3 s4 tt tb)),
            snd (add_entry d t (strip l) pb pt s1 s2 s3 s4 tt tb))"
  using assms by (simp add: add_entry_menu_def split_beta)

lemma add_entry_menu_input_ends:
  assumes "strip l \<noteq> []"
    and "\<not> (\<exists>pb i1 pt i2 s1 i3 s2 i4 s3 i5 s4 i6 tt i7 tb i8.
            get_float_input float ls = Some (pb, i1) \<and>
            get_float_input float i1 = Some (pt, i2) \<and>
            get_float_input float i2 = Some (s1, i3) \<and>
            get_float_input float i3 = Some (s2, i4) \<and>
            get_float_input float i4 = Some (s3, i5) \<and>
            get_float_input float i5 = Some (s4, i6) \<and>
            get_float_input float i6 = Some (tt, i7) \<and>
            get_float_input float i7 = Some (tb, i8))"
  shows "add_entry_menu float d t (l # ls) = (EOFError, d)"
proof (cases "do {
                (pb, i1) \<leftarrow> get_float_input float ls;
                (pt, i2) \<leftarrow> get_float_input float i1;
                (s1, i3) \<leftarrow> get_float_input float i2;
                (s2, i4) \<leftarrow> get_float_input float i3;
                (s3, i5) \<leftarrow> get_float_input float i4;
                (s4, i6) \<leftarrow> get_float_input float i5;
                (tt, i7) \<leftarrow> get_float_input float i6;
                (tb, i8) \<leftarrow> get_float_input float i7;
                Some (add_entry d t (strip l) pb pt s1 s2 s3 s4 tt tb)
              }")
  case None
  then show ?thesis using assms(1) by (simp add: add_entry_menu_def)
next
  case (Some r)
  then have "\<exists>pb i1 pt i2 s1 i3 s2 i4 s3 i5 s4 i6 tt i7 tb i8.
            get_float_input float ls = Some (pb, i1) \<and>
            get_float_input float i1 = Some (pt, i2) \<and>
            get_float_input float i2 = Some (s1, i3) \<and>
            get_float_input float i3 = Some (s2, i4) \<and>
            get_float_input float i4 = Some (s3, i5) \<and>
            get_float_input float i5 = Some (s4, i6) \<and>
            get_float_input float i6 = Some (tt, i7) \<and>
            get_float_input float i7 = Some (tb, i8)"
    by (auto simp: Option.bind_eq_Some_conv)
  with assms(2) show ?thesis by blast
qed

text \<open>
  Claim C2 says that the create operation of the store fails on a name that is empty or
  only whitespace and inserts nothing. \<open>add_entry\<close> on the empty database with the empty
  name returns the id 1 and inserts the record; with a name of two spaces it inserts
  that name.
\<close>

theorem add_entry_empty_name_counterexample:
  "add_entry initialize_database 5 [] None None None None None None None None =
     (1, \<lparr>rows = [\<lparr>name = [], previous_balance = None, previous_total = None,
                     seller_1 = None, seller_2 = None, seller_3 = None, seller_4 = None,
                     today_total = None, today_balance = None,
                     rowid = 1, created_at = 5, updated_at = 5\<rparr>], seq = 1\<rparr>) \<and>
   map name (rows (snd (add_entry initialize_database 5 ''  '' None None None None None None None None))) = [''  ''] \<and>
   strip ''  '' = []"
  by (simp add: add_entry_def initialize_database_def next_rowid_def strip_def isspace_def)

text \<open>
  Claim C2, amended. \<open>add_entry\<close> does not look at the name: for every name and every
  choice of the optional fields it appends one record with the fields as given (\<open>None\<close>
  where none was given), \<open>created_at\<close> and \<open>updated_at\<close> both the time of the call, under
  an id that no record of the table has, and returns that id. The check of the name is
  the caller's. \<open>add_entry_menu\<close> strips the line the user typed. When nothing is left it
  reports that the name is required and leaves the database alone. Otherwise it reads the
  eight amounts one after the other, each from where the one before stopped, and the
  result is the call of \<open>add_entry\<close> with the stripped name and exactly these amounts;
  it ends with EOFError and the database untouched when the eight reads cannot all be
  made, and a read fails only when every line left is neither blank nor a number.
\<close>

theorem add_entry_accepts_every_name:
  "fst (add_entry d t nm pb pt s1 s2 s3 s4 tt tb) \<notin> set (map rowid (rows d)) \<and>
   rows (snd (add_entry d t nm pb pt s1 s2 s3 s4 tt tb)) =
     rows d @ [\<lparr>name = nm, previous_balance = pb, previous_total = pt,
                 seller_1 = s1, seller_2 = s2, seller_3 = s3, seller_4 = s4,
                 today_total = tt, today_balance = tb,
                 rowid = fst (add_entry d t nm pb pt s1 s2 s3 s4 tt tb),
                 created_at = t, updated_at = t\<rparr>] \<and>
   get_entry (snd (add_entry d t nm pb pt s1 s2 s3 s4 tt tb)) (fst (add_entry d t nm pb pt s1 s2 s3 s4 tt tb)) =
     Some \<lparr>name = nm, previous_balance = pb, previous_total = pt,
           seller_1 = s1, seller_2 = s2, seller_3 = s3, seller_4 = s4,
           today_total = tt, today_balance = tb,
           rowid = fst (add_entry d t nm pb pt s1 s2 s3 s4 tt tb),
           created_at = t, updated_at = t\<rparr> \<and>
   (strip l = [] \<longrightarrow> add_entry_menu float d t (l # ls) = (Name_is_required, d)) \<and>
   (strip l \<noteq> [] \<and>
    get_float_input float ls = Some (pb, i1) \<and>
    get_float_input float i1 = Some (pt, i2) \<and>
    get_float_input float i2 = Some (s1, i3) \<and>
    get_float_input float i3 = Some (s2, i4) \<and>
    get_float_input float i4 = Some (s3, i5) \<and>
    get_float_input float i5 = Some (s4, i6) \<and>
    get_float_input float i6 = Some (tt, i7) \<and>
    get_float_input float i7 = Some (tb, i8) \<longrightarrow>
      add_entry_menu float d t (l # ls) =
        (Entry_added (fst (add_entry d t (strip l) pb pt s1 s2 s3 s4 tt tb)),
         snd (add_entry d t (strip l) pb pt s1 s2 s3 s4 tt tb))) \<and>
   (strip l \<noteq> [] \<and>
    \<not> (\<exists>pb i1 pt i2 s1 i3 s2 i4 s3 i5 s4 i6 tt i7 tb i8.
          get_float_input float ls = Some (pb, i1) \<and>
          get_float_input float i1 = Some (pt, i2) \<and>
          get_float_input float i2 = Some (s1, i3) \<and>
          get_float_input float i3 = Some (s2, i4) \<and>
          get_float_input float i4 = Some (s3, i5) \<and>
          get_float_input float i5 = Some (s4, i6) \<and>
          get_float_input float i6 = Some (tt, i7) \<and>
          get_float_input float i7 = Some (tb, i8)) \<longrightarrow>
      add_entry_menu float d t (l # ls) = (EOFError, d)) \<and>
   (get_float_input float ls = None) =
     list_all (\<lambda>x. strip x \<noteq> [] \<and> float (strip x) = None) ls"
proof (intro conjI impI)
  show "fst (add_entry d t nm pb pt s1 s2 s3 s4 tt tb) \<notin> set (map rowid (rows d))"
    unfolding add_entry_eq fst_conv by (rule next_rowid_fresh)
  show "rows (snd (add_entry d t nm pb pt s1 s2 s3 s4 tt tb)) =
     rows d @ [\<lparr>name = nm, previous_balance = pb, previous_total = pt,
                 seller_1 = s1, seller_2 = s2, seller_3 = s3, seller_4 = s4,
                 today_total = tt, today_balance = tb,
                 rowid = fst (add_entry d t nm pb pt s1 s2 s3 s4 tt tb),
                 created_at = t, updated_at = t\<rparr>]"
    unfolding add_entry_eq by simp
  show "get_entry (snd (add_entry d t nm pb pt s1 s2 s3 s4 tt tb)) (fst (add_entry d t nm pb pt s1 s2 s3 s4 tt tb)) =
     Some \<lparr>name = nm, previous_balance = pb, previous_total = pt,
           seller_1 = s1, seller_2 = s2, seller_3 = s3, seller_4 = s4,
           today_total = tt, today_balance = tb,
           rowid = fst (add_entry d t nm pb pt s1 s2 s3 s4 tt tb),
           created_at = t, updated_at = t\<rparr>"
    using get_entry_add_entry [of d t nm pb pt s1 s2 s3 s4 tt tb] by (simp add: add_entry_eq)
  show "(get_float_input float ls = None) =
     list_all (\<lambda>x. strip x \<noteq> [] \<and> float (strip x) = None) ls"
    by (rule get_float_input_None_iff)
next
  assume "strip l = []"
  then show "add_entry_menu float d t (l # ls) = (Name_is_required, d)"
    by (rule add_entry_menu_empty_name)
next
  assume "strip l \<noteq> [] \<and>
    get_float_input float ls = Some (pb, i1) \<and>
    get_float_input float i1 = Some (pt, i2) \<and>
    get_float_input float i2 = Some (s1, i3) \<and>
    get_float_input float i3 = Some (s2, i4) \<and>
    get_float_input float i4 = Some (s3, i5) \<and>
    get_float_input float i5 = Some (s4, i6) \<and>
    get_float_input float i6 = Some (tt, i7) \<and>
    get_float_input float i7 = Some (tb, i8)"
  then show "add_entry_menu float d t (l # ls) =
        (Entry_added (fst (add_entry d t (strip l) pb pt s1 s2 s3 s4 tt tb)),
         snd (add_entry d t (strip l) pb pt s1 s2 s3 s4 tt tb))"
    using add_entry_menu_reads [of l float ls pb i1 pt i2 s1 i3 s2 i4 s3 i5 s4 i6 tt i7 tb i8 d t]
    by blast
next
  assume "strip l \<noteq> [] \<and>
    \<not> (\<exists>pb i1 pt i2 s1 i3 s2 i4 s3 i5 s4 i6 tt i7 tb i8.
          get_float_input float ls = Some (pb, i1) \<and>
          get_float_input float i1 = Some (pt, i2) \<and>
          get_float_input float i2 = Some (s1, i3) \<and>
          get_float_input float i3 = Some (s2, i4) \<and>
          get_float_input float i4 = Some (s3, i5) \<and>
          get_float_input float i5 = Some (s4, i6) \<and>
          get_float_input float i6 = Some (tt, i7) \<and>
          get_float_input float i7 = Some (tb, i8))"
  then show "add_entry_menu float d t (l # ls) = (EOFError, d)"
    using add_entry_menu_input_ends [of l float ls d t] by blast
qed

lemma strip_spaces: "strip ''   '' = []"
  by (simp add: strip_def isspace_def)

lemma strip_Ann: "strip '' Ann '' = ''Ann''"
  by (simp add: strip_def isspace_def)

lemma decimal_literal_7: "decimal_literal ''7'' = Some 7"
  by (simp add: decimal_literal_def)

lemma decimal_literal_x: "decimal_literal ''x'' = None"
  by (simp add: decimal_literal_def)

lemma strip_plain [simp]: "strip [] = []" "strip ''7'' = ''7''" "strip ''x'' = ''x''"
  by (simp_all add: strip_def isspace_def)

text \<open>
  On the ledger of Bob: the menu turns a name of three spaces away; with the name Ann,
  7 for the second seller (after a line that is no number was typed for the third and
  asked again) and every other amount left blank it adds the record under the new id 2;
  and it ends with EOFError when the lines run out.
\<close>

theorem add_entry_accepts_every_name_witness:
  "strip ''   '' = [] \<and>
   add_entry_menu decimal_literal bob_ledger 9 [''   '', ''1'', ''2''] = (Name_is_required, bob_ledger) \<and>
   strip '' Ann '' = ''Ann'' \<and>
   add_entry_menu decimal_literal bob_ledger 9
     ['' Ann '', [], [], [], ''7'', ''x'', [], [], [], []] =
     (Entry_added 2,
      \<lparr>rows = [bob,
                \<lparr>name = ''Ann'', previous_balance = None, previous_total = None,
                  seller_1 = None, seller_2 = Some 7, seller_3 = None, seller_4 = None,
                  today_total = None, today_balance = None,
                  rowid = 2, created_at = 9, updated_at = 9\<rparr>],
        seq = 2\<rparr>) \<and>
   add_entry_menu decimal_literal bob_ledger 9 ['' Ann '', [], ''x''] = (EOFError, bob_ledger) \<and>
   get_entry (snd (add_entry bob_ledger 9 ''Ann'' None None None (Some 7) None None None None)) 2 =
     Some \<lparr>name = ''Ann'', previous_balance = None, previous_total = None,
           seller_1 = None, seller_2 = Some 7, seller_3 = None, seller_4 = None,
           today_total = None, today_balance = None,
           rowid = 2, created_at = 9, updated_at = 9\<rparr>"
proof -
  have ann: "add_entry bob_ledger 9 ''Ann'' None None None (Some 7) None None None None =
      (2, \<lparr>rows = [bob,
                \<lparr>name = ''Ann'', previous_balance = None, previous_total = None,
                  seller_1 = None, seller_2 = Some 7, seller_3 = None, seller_4 = None,
                  today_total = None, today_balance = None,
                  rowid = 2, created_at = 9, updated_at = 9\<rparr>],
        seq = 2\<rparr>)"
    by (simp add: add_entry_def bob_ledger_def initialize_database_def next_rowid_def bob_def)
  have blank: "add_entry_menu decimal_literal bob_ledger 9 [''   '', ''1'', ''2''] = (Name_is_required, bob_ledger)"
    using add_entry_accepts_every_name [where l = "''   ''" and float = decimal_literal and d = bob_ledger and t = 9
        and ls = "[''1'', ''2'']"] strip_spaces
    by simp
  have added: "add_entry_menu decimal_literal bob_ledger 9
                 ['' Ann '', [], [], [], ''7'', ''x'', [], [], [], []] =
               (Entry_added (fst (add_entry bob_ledger 9 ''Ann'' None None None (Some 7) None None None None)),
                snd (add_entry bob_ledger 9 ''Ann'' None None None (Some 7) None None None None))"
    using add_entry_accepts_every_name [where l = "'' Ann ''" and float = decimal_literal and d = bob_ledger and t = 9
        and ls = "[[], [], [], ''7'', ''x'', [], [], [], []]"
        and pb = None and ?i1.0 = "[[], [], ''7'', ''x'', [], [], [], []]"
        and pt = None and ?i2.0 = "[[], ''7'', ''x'', [], [], [], []]"
        and ?s1.0 = None and ?i3.0 = "[''7'', ''x'', [], [], [], []]"
        and ?s2.0 = "Some 7" and ?i4.0 = "[''x'', [], [], [], []]"
        and ?s3.0 = None and ?i5.0 = "[[], [], []]"
        and ?s4.0 = None and ?i6.0 = "[[], []]"
        and tt = None and ?i7.0 = "[[]]"
        and tb = None and ?i8.0 = "[]"]
    by (simp add: strip_Ann decimal_literal_7 decimal_literal_x)
  have ended: "add_entry_menu decimal_literal bob_ledger 9 ['' Ann '', [], ''x''] = (EOFError, bob_ledger)"
    using add_entry_accepts_every_name [where l = "'' Ann ''" and float = decimal_literal and d = bob_ledger and t = 9
        and ls = "[[], ''x'']"]
    by (simp add: strip_Ann decimal_literal_x)
  have stored: "get_entry (snd (add_entry bob_ledger 9 ''Ann'' None None None (Some 7) None None None None)) 2 =
     Some \<lparr>name = ''Ann'', previous_balance = None, previous_total = None,
           seller_1 = None, seller_2 = Some 7, seller_3 = None, seller_4 = None,
           today_total = None, today_balance = None,
           rowid = 2, created_at = 9, updated_at = 9\<rparr>"
    using add_entry_accepts_every_name [where d = bob_ledger and t = 9 and nm = "''Ann''" and pb = None and pt = None
        and ?s1.0 = None and ?s2.0 = "Some 7" and ?s3.0 = None and ?s4.0 = None and tt = None and tb = None]
    by (simp add: ann)
  from blank added ended stored show ?thesis
    by (simp add: strip_spaces strip_Ann ann)
qed

text \<open>
  Claim C3 says that no successful \<open>add_entry\<close> or \<open>update_entry_complete\<close> leaves a record
  with the empty name. On the ledger of Bob the full replace of record 1 with the empty
  name succeeds and leaves the name empty, and \<open>add_entry\<close> with the empty name adds a
  record with the empty name.
\<close>

theorem empty_name_after_store_call_counterexample:
  "fst (update_entry_complete bob_ledger 9 1 [] None None (Some 10) None None None None None) \<and>
   map name (rows (snd (update_entry_complete bob_ledger 9 1 [] None None (Some 10) None None None None None))) = [[]] \<and>
   map name (rows (snd (add_entry bob_ledger 9 [] None None None None None None None None))) = [''Bob'', []]"
  by (simp add: update_entry_complete_def add_entry_def bob_ledger_def initialize_database_def next_rowid_def)

lemma names_nonempty_add_entry:
  "nm \<noteq> [] \<Longrightarrow> names_nonempty d \<Longrightarrow> names_nonempty (snd (add_entry d t nm pb pt s1 s2 s3 s4 tt tb))"
  by (simp add: names_nonempty_def add_entry_eq)

lemma names_nonempty_update_entry_complete:
  "nm \<noteq> [] \<Longrightarrow> names_nonempty d \<Longrightarrow>
   names_nonempty (snd (update_entry_complete d t i nm pb pt s1 s2 s3 s4 tt tb))"
  by (auto simp: names_nonempty_def update_entry_complete_eq list_all_iff)

text \<open>
  Claim C3, amended. \<open>add_entry\<close> and \<open>update_entry_complete\<close> store the name they are
  given without checking it: the record created, and the record replaced when the id
  exists, holds exactly the supplied name. So with a non-empty name, a table in which
  every name is non-empty stays so after either call.
\<close>

theorem store_keeps_supplied_name:
  "map_option name (get_entry (snd (add_entry d t nm pb pt s1 s2 s3 s4 tt tb))
                              (fst (add_entry d t nm pb pt s1 s2 s3 s4 tt tb))) = Some nm \<and>
   (get_entry d i \<noteq> None \<longrightarrow>
      fst (update_entry_complete d t i nm pb pt s1 s2 s3 s4 tt tb) \<and>
      map_option name (get_entry (snd (update_entry_complete d t i nm pb pt s1 s2 s3 s4 tt tb)) i) = Some nm) \<and>
   (nm \<noteq> [] \<and> names_nonempty d \<longrightarrow>
      names_nonempty (snd (add_entry d t nm pb pt s1 s2 s3 s4 tt tb)) \<and>
      names_nonempty (snd (update_entry_complete d t i nm pb pt s1 s2 s3 s4 tt tb)))"
proof (intro conjI impI)
  show "map_option name (get_entry (snd (add_entry d t nm pb pt s1 s2 s3 s4 tt tb))
                              (fst (add_entry d t nm pb pt s1 s2 s3 s4 tt tb))) = Some nm"
    by (simp add: get_entry_add_entry)
next
  assume "get_entry d i \<noteq> None"
  then obtain e where e: "get_entry d i = Some e" by blast
  then have id: "rowid e = i" by (rule get_entry_rowid)
  show "fst (update_entry_complete d t i nm pb pt s1 s2 s3 s4 tt tb)"
    unfolding update_entry_complete_eq using e by simp
  show "map_option name (get_entry (snd (update_entry_complete d t i nm pb pt s1 s2 s3 s4 tt tb)) i) = Some nm"
    unfolding update_entry_complete_eq using e id
    by (simp add: get_entry_def find_map_rowid)
next
  assume h: "nm \<noteq> [] \<and> names_nonempty d"
  then show "names_nonempty (snd (add_entry d t nm pb pt s1 s2 s3 s4 tt tb))"
    by (simp add: names_nonempty_add_entry)
  from h show "names_nonempty (snd (update_entry_complete d t i nm pb pt s1 s2 s3 s4 tt tb))"
    by (simp add: names_nonempty_update_entry_complete)
qed

lemma names_nonempty_bob_ledger: "names_nonempty bob_ledger"
  by (simp add: names_nonempty_def add_entry_def bob_ledger_def initialize_database_def next_rowid_def)

text \<open>On the ledger of Bob, with the name Rob.\<close>

theorem store_keeps_supplied_name_witness:
  "get_entry bob_ledger 1 \<noteq> None \<and> ''Rob'' \<noteq> [] \<and> names_nonempty bob_ledger \<and>
   map_option name (get_entry (snd (add_entry bob_ledger 9 ''Rob'' None None None None None None None None))
                              (fst (add_entry bob_ledger 9 ''Rob'' None None None None None None None None))) = Some ''Rob'' \<and>
   fst (update_entry_complete bob_ledger 9 1 ''Rob'' None None None None None None None None) \<and>
   map_option name (get_entry (snd (update_entry_complete bob_ledger 9 1 ''Rob'' None None None None None None None None)) 1) = Some ''Rob'' \<and>
   names_nonempty (snd (add_entry bob_ledger 9 ''Rob'' None None None None None None None None)) \<and>
   names_nonempty (snd (update_entry_complete bob_ledger 9 1 ''Rob'' None None None None None None None None))"
  using store_keeps_supplied_name [of bob_ledger 9 "''Rob''" None None None None None None None None 1]
  by (simp add: get_entry_bob_ledger names_nonempty_bob_ledger)

section \<open>Search by name\<close>

lemma like_percent: "like [CHR ''%''] t"
  by (induction t) simp_all

lemma like_literal_prefix:
  "literal s \<Longrightarrow> like (s @ [CHR ''%'']) t = prefix (map lower s) (map lower t)"
proof (induction s arbitrary: t)
  case Nil
  show ?case by (simp add: like_percent)
next
  case (Cons p ps)
  then have p: "p \<noteq> CHR ''%''" "p \<noteq> CHR ''_''" and ps: "literal ps"
    by (simp_all add: literal_def)
  show ?case
  proof (cases t)
    case Nil
    with p show ?thesis by simp
  next
    case (Cons c cs)
    with p Cons.IH [OF ps, of cs] show ?thesis by simp
  qed
qed

lemma like_contains:
  assumes "literal s"
  shows "like ([CHR ''%''] @ s @ [CHR ''%'']) t = sublist (map lower s) (map lower t)"
proof (induction t)
  case Nil
  have "like (s @ [CHR ''%'']) [] = prefix (map lower s) (map lower [])"
    by (rule like_literal_prefix [OF assms])
  then show ?case by simp
next
  case (Cons c cs)
  have "like (s @ [CHR ''%'']) (c # cs) = prefix (map lower s) (map lower (c # cs))"
    by (rule like_literal_prefix [OF assms])
  with Cons show ?case by (simp add: sublist_Cons_right)
qed

text \<open>
  Claim C7 says that \<open>search_by_name\<close> returns exactly the records whose name contains the
  search text. The search text goes into the \<open>LIKE\<close> pattern as it is, so its \<open>_\<close> and
  \<open>%\<close> are wildcards: the search for \<open>_\<close> returns all three records of the example
  ledger, and none of the three names contains an underscore.
\<close>

theorem search_by_name_underscore_matches_every_name:
  "map name (search_by_name shop_ledger ''_'') = [''bobby'', ''rob'', ''Bob's Store''] \<and>
   \<not> sublist (map lower ''_'') (map lower ''bobby'') \<and>
   \<not> sublist (map lower ''_'') (map lower ''rob'') \<and>
   \<not> sublist (map lower ''_'') (map lower ''Bob's Store'')"
  by (simp add: search_by_name_def order_by_updated_at_desc_def shop_ledger_def add_entry_def
      initialize_database_def next_rowid_def lower_def sublist_Cons_right)

lemma search_by_name_bob:
  "map name (search_by_name shop_ledger ''bob'') = [''bobby'', ''Bob's Store''] \<and>
   map name (search_by_name shop_ledger []) = [''bobby'', ''rob'', ''Bob's Store'']"
  by (simp add: search_by_name_def order_by_updated_at_desc_def shop_ledger_def add_entry_def
      initialize_database_def next_rowid_def lower_def)

text \<open>
  For a literal search text the claim holds: the result holds exactly the records whose
  name contains the text up to ASCII case, each as often as the table holds it, most
  recently updated first.
\<close>

theorem search_by_name_literal:
  assumes "literal nm"
  shows "mset (search_by_name d nm) =
           mset (filter (\<lambda>e. sublist (map lower nm) (map lower (name e))) (rows d)) \<and>
         sorted_wrt (\<lambda>a b. updated_at b \<le> updated_at a) (search_by_name d nm)"
proof
  show "mset (search_by_name d nm) =
           mset (filter (\<lambda>e. sublist (map lower nm) (map lower (name e))) (rows d))"
    by (simp add: search_by_name_def order_by_updated_at_desc_def like_contains [OF assms, simplified])
  have "sorted (map (\<lambda>e. - int (updated_at e)) (search_by_name d nm))"
    unfolding search_by_name_def order_by_updated_at_desc_def by (rule sorted_sort_key)
  then show "sorted_wrt (\<lambda>a b. updated_at b \<le> updated_at a) (search_by_name d nm)"
    by (simp add: sorted_map)
qed

text \<open>
  On the example ledger: \<open>bob\<close> finds \<open>bobby\<close> and \<open>Bob's Store\<close> and not \<open>rob\<close>, and the
  empty text finds every record.
\<close>

theorem search_by_name_literal_witness:
  "literal ''bob'' \<and>
   mset (search_by_name shop_ledger ''bob'') =
     mset (filter (\<lambda>e. sublist (map lower ''bob'') (map lower (name e))) (rows shop_ledger)) \<and>
   sorted_wrt (\<lambda>a b. updated_at b \<le> updated_at a) (search_by_name shop_ledger ''bob'') \<and>
   map name (search_by_name shop_ledger ''bob'') = [''bobby'', ''Bob's Store''] \<and>
   map name (search_by_name shop_ledger []) = [''bobby'', ''rob'', ''Bob's Store'']"
proof -
  have l: "literal ''bob''" by (simp add: literal_def)
  from search_by_name_literal [OF l, of shop_ledger] l search_by_name_bob show ?thesis by simp
qed

section \<open>The inline editor: commits\<close>

lemma rows_bob_ledger: "bob_ledger = \<lparr>rows = [bob], seq = 1\<rparr>"
  by (simp add: bob_ledger_def bob_def add_entry_def initialize_database_def next_rowid_def)

lemma init_gui_bob:
  "init_gui bob_ledger =
     \<lparr>db = bob_ledger, tree = [(1, 1)], next_item = 2, editing_entry = None, editing_item = None,
      editing_column = None, editing_column_index = None, entries = [], next_widget = 1,
      errors = [], status_var = Total_entries 1, idle = 0\<rparr>"
  by (simp add: init_gui_def create_widgets_def refresh_table_def get_all_entries_def
      order_by_updated_at_desc_def rows_bob_ledger bob_def)

lemma double_click_seller_1:
  "step float (init_gui bob_ledger) (typing txt, Double_click ''cell'' (Some 1) (Some 6)) =
     \<lparr>db = bob_ledger, tree = [(1, 1)], next_item = 2, editing_entry = Some 1, editing_item = Some 1,
      editing_column = Some ''Seller 1'', editing_column_index = Some 5, entries = [1], next_widget = 2,
      errors = [], status_var = Total_entries 1, idle = 0\<rparr>"
  by (simp add: init_gui_bob step_def on_tree_double_click_def start_inline_edit_def columns_def
      non_editable_columns_def typing_def)

lemma db_cancel_inline_edit [simp]: "db (cancel_inline_edit g) = db g"
  by (simp add: cancel_inline_edit_def split: option.split)

lemma db_start_inline_edit [simp]: "db (start_inline_edit v g item column_name column_index) = db g"
  by (simp add: start_inline_edit_def Let_def split: option.split)

lemma db_refresh_table [simp]: "db (refresh_table g) = db g"
  by (simp add: refresh_table_def Let_def)

lemma update_entry_kw_nothing: "update_entry_kw d t i field_name None None = (False, d)"
  by (simp add: update_entry_kw_def update_entry_eq)

lemma finish_currency_unparseable:
  assumes "editing_column g = Some column" and "column \<in> set currency_columns"
    and "parse_currency float (strip (typed v)) = None"
  shows "db (finish_inline_edit float v g) = db g"
  using assms
  by (simp add: finish_inline_edit_def Let_def update_entry_kw_nothing
      split: option.split)

lemma parse_currency_empty: "strip txt = [] \<Longrightarrow> parse_currency float (strip txt) = None"
  by (simp add: parse_currency_def)

text \<open>
  Claim C1 says that committing an empty or unparseable text in a currency column clears
  the stored field. On the ledger of Bob, whose \<open>seller_1\<close> is 10: a double click opens
  the cell \<open>Seller 1\<close> of the row, the user empties the editor (or types \<open>abc\<close>) and
  presses Return. The commit passes \<open>None\<close> to \<open>update_entry\<close>, which takes it for an absent field, returns
  \<open>False\<close> and changes nothing; the window ignores the result and reports the column as
  updated. The database is the one before and \<open>seller_1\<close> is still 10.
\<close>

theorem inline_commit_of_empty_text_keeps_amount:
  "run decimal_literal (init_gui bob_ledger)
     [(typing [], Double_click ''cell'' (Some 1) (Some 6)), (typing [], Finish)] =
     \<lparr>db = bob_ledger, tree = [(2, 1)], next_item = 3, editing_entry = None, editing_item = None,
      editing_column = None, editing_column_index = None, entries = [], next_widget = 2,
      errors = [], status_var = Updated_successfully ''Seller 1'', idle = 0\<rparr> \<and>
   run decimal_literal (init_gui bob_ledger)
     [(typing [], Double_click ''cell'' (Some 1) (Some 6)), (typing ''abc'', Finish)] =
     \<lparr>db = bob_ledger, tree = [(2, 1)], next_item = 3, editing_entry = None, editing_item = None,
      editing_column = None, editing_column_index = None, entries = [], next_widget = 2,
      errors = [], status_var = Updated_successfully ''Seller 1'', idle = 0\<rparr> \<and>
   get_entry bob_ledger 1 = Some bob \<and> seller_1 bob = Some 10"
proof -
  have abc: "parse_currency decimal_literal (strip ''abc'') = None"
    by (simp add: parse_currency_def strip_def isspace_def decimal_literal_def)
  have "step decimal_literal
          (step decimal_literal (init_gui bob_ledger) (typing [], Double_click ''cell'' (Some 1) (Some 6)))
          (typing ''abc'', Finish) =
     \<lparr>db = bob_ledger, tree = [(2, 1)], next_item = 3, editing_entry = None, editing_item = None,
      editing_column = None, editing_column_index = None, entries = [], next_widget = 2,
      errors = [], status_var = Updated_successfully ''Seller 1'', idle = 0\<rparr>"
    unfolding double_click_seller_1
    by (simp add: step_def finish_inline_edit_def cancel_inline_edit_def column_to_field_def
        currency_columns_def typing_def abc update_entry_kw_nothing
        refresh_table_def get_all_entries_def order_by_updated_at_desc_def rows_bob_ledger bob_def)
  moreover
  have "step decimal_literal
          (step decimal_literal (init_gui bob_ledger) (typing [], Double_click ''cell'' (Some 1) (Some 6)))
          (typing [], Finish) =
     \<lparr>db = bob_ledger, tree = [(2, 1)], next_item = 3, editing_entry = None, editing_item = None,
      editing_column = None, editing_column_index = None, entries = [], next_widget = 2,
      errors = [], status_var = Updated_successfully ''Seller 1'', idle = 0\<rparr>"
    unfolding double_click_seller_1
    by (simp add: step_def finish_inline_edit_def cancel_inline_edit_def column_to_field_def
        currency_columns_def typing_def strip_def parse_currency_def update_entry_kw_nothing
        refresh_table_def get_all_entries_def order_by_updated_at_desc_def rows_bob_ledger bob_def)
  ultimately show ?thesis
    by (simp add: run_def get_entry_bob_ledger) (simp add: bob_def)
qed

section \<open>The inline editor: one editor at a time\<close>

lemma single_editor_init: "single_editor (init_gui d)"
  by (simp add: single_editor_def init_gui_def create_widgets_def refresh_table_def Let_def)

lemma single_editor_cancel:
  "single_editor g \<Longrightarrow> single_editor (cancel_inline_edit g)"
  by (auto simp: single_editor_def cancel_inline_edit_def split: option.splits)

lemma editing_entry_cancel [simp]: "editing_entry (cancel_inline_edit g) = None"
  by (simp add: cancel_inline_edit_def split: option.split)

lemma next_widget_cancel [simp]: "next_widget (cancel_inline_edit g) = next_widget g"
  by (simp add: cancel_inline_edit_def split: option.split)

lemma entries_cancel: "single_editor g \<Longrightarrow> entries (cancel_inline_edit g) = []"
  by (auto simp: single_editor_def cancel_inline_edit_def split: option.splits)

lemma single_editor_start:
  "single_editor g \<Longrightarrow> editing_entry g = None \<Longrightarrow>
   single_editor (start_inline_edit v g item column_name column_index)"
  by (auto simp: single_editor_def start_inline_edit_def Let_def split: option.splits)

lemma transition_start:
  "single_editor g \<Longrightarrow> editing_entry g = None \<Longrightarrow>
   editor_transition g (start_inline_edit v g item column_name column_index)"
  by (auto simp: single_editor_def editor_transition_def start_inline_edit_def Let_def split: option.splits)

lemma same_editor_refl [simp]: "same_editor g g"
  by (simp add: same_editor_def)

lemma same_editor_refresh [simp]: "same_editor g (refresh_table g') = same_editor g g'"
  by (simp add: same_editor_def refresh_table_def Let_def)

lemma same_editor_updates [simp]:
  "same_editor g (g'\<lparr>db := x\<rparr>) = same_editor g g'"
  "same_editor g (g'\<lparr>errors := y\<rparr>) = same_editor g g'"
  "same_editor g (g'\<lparr>status_var := z\<rparr>) = same_editor g g'"
  "same_editor g (g'\<lparr>idle := n\<rparr>) = same_editor g g'"
  by (simp_all add: same_editor_def)

lemma same_editor_left [simp]:
  "same_editor (g\<lparr>errors := y\<rparr>) g' = same_editor g g'"
  "same_editor (g\<lparr>idle := n\<rparr>) g' = same_editor g g'"
  by (simp_all add: same_editor_def)

lemma single_editor_same: "single_editor g \<Longrightarrow> same_editor g g' \<Longrightarrow> single_editor g'"
  unfolding single_editor_def same_editor_def by metis

lemma transition_same: "editor_transition g0 g \<Longrightarrow> same_editor g g' \<Longrightarrow> editor_transition g0 g'"
  by (simp add: editor_transition_def same_editor_def)

lemma transition_same_left: "editor_transition g g' \<Longrightarrow> same_editor g0 g \<Longrightarrow> editor_transition g0 g'"
  by (simp add: editor_transition_def same_editor_def)

lemma transition_refl: "same_editor g g' \<Longrightarrow> editor_transition g g'"
  by (simp add: editor_transition_def same_editor_def)

lemma transition_cancel: "single_editor g \<Longrightarrow> editor_transition g (cancel_inline_edit g)"
  by (auto simp: single_editor_def editor_transition_def cancel_inline_edit_def split: option.splits)

text \<open>After a cancel, whatever follows is a start from Idle or nothing.\<close>

lemma transition_after_cancel:
  assumes "single_editor g" and "same_editor (cancel_inline_edit g) g1"
  shows "editor_transition g g1 \<and> single_editor g1 \<and>
         editor_transition g (start_inline_edit v g1 item c k) \<and>
         single_editor (start_inline_edit v g1 item c k)"
proof -
  have s1: "single_editor g1"
    using single_editor_cancel [OF assms(1)] assms(2) by (rule single_editor_same)
  have e1: "editing_entry g1 = None" "entries g1 = []" "next_widget g1 = next_widget g"
    using assms(2) entries_cancel [OF assms(1)] by (simp_all add: same_editor_def)
  have t1: "editor_transition g g1"
    using e1 by (simp add: editor_transition_def)
  have t2: "editor_transition g1 (start_inline_edit v g1 item c k)"
    using s1 e1(1) by (rule transition_start)
  have t3: "editor_transition g (start_inline_edit v g1 item c k)"
    using t2 e1 by (auto simp: editor_transition_def)
  show ?thesis using s1 t1 t3 single_editor_start [OF s1 e1(1)] by simp
qed

lemmas after_cancel_1 = transition_after_cancel [THEN conjunct1]
lemmas after_cancel_2 = transition_after_cancel [THEN conjunct2, THEN conjunct1]
lemmas after_cancel_3 = transition_after_cancel [THEN conjunct2, THEN conjunct2, THEN conjunct1]
lemmas after_cancel_4 = transition_after_cancel [THEN conjunct2, THEN conjunct2, THEN conjunct2]

lemma finish_inline_edit_editor:
  assumes "single_editor g"
  shows "single_editor (finish_inline_edit float v g) \<and>
         editor_transition g (finish_inline_edit float v g)"
proof (cases "editing_entry g")
  case None
  then have "finish_inline_edit float v g = g"
    by (simp add: finish_inline_edit_def)
  with assms show ?thesis by (simp add: transition_refl)
next
  case (Some w)
  with assms obtain item column k where
    e: "editing_item g = Some item" "editing_column g = Some column" "editing_column_index g = Some k"
    and w: "w \<in> set (entries g)"
    by (auto simp: single_editor_def)
  have c: "same_editor (cancel_inline_edit g) (cancel_inline_edit g)" by simp
  have ce: "same_editor (cancel_inline_edit g) ((cancel_inline_edit g)\<lparr>errors := x\<rparr>)" for x by simp
  have cd: "same_editor (cancel_inline_edit g)
              (refresh_table ((cancel_inline_edit g)\<lparr>db := x\<rparr>)\<lparr>status_var := y\<rparr>)" for x y
    by simp
  note facts = after_cancel_1 [OF assms c] after_cancel_2 [OF assms c]
    after_cancel_3 [OF assms ce] after_cancel_4 [OF assms ce]
    after_cancel_1 [OF assms cd] after_cancel_2 [OF assms cd]
  show ?thesis using Some e w facts
    by (simp add: finish_inline_edit_def Let_def split: option.split)
qed

lemma check_focus_out_editor:
  assumes "single_editor g"
  shows "single_editor (check_focus_out float v g) \<and>
         editor_transition g (check_focus_out float v g)"
proof (cases "editing_entry g")
  case None
  with assms show ?thesis by (simp add: check_focus_out_def transition_refl)
next
  case (Some w)
  with assms have "w \<in> set (entries g)" by (simp add: single_editor_def)
  with Some assms finish_inline_edit_editor [OF assms, of float v] show ?thesis
    by (simp add: check_focus_out_def transition_refl)
qed

lemma same_editor_edit_entry: "same_editor g (edit_entry float v g)"
  by (simp add: edit_entry_def Let_def split: option.split)

lemma on_tree_double_click_editor:
  assumes "single_editor g"
  shows "single_editor (on_tree_double_click float v g region item column) \<and>
         editor_transition g (on_tree_double_click float v g region item column)"
proof -
  define g1 where "g1 = (if editing_entry g \<noteq> None then cancel_inline_edit g else g)"
  have c: "same_editor (cancel_inline_edit g) g1"
    by (simp add: g1_def cancel_inline_edit_def same_editor_def)
  have c2: "same_editor (cancel_inline_edit g) (edit_entry float v g1)"
    using same_editor_edit_entry [of g1 float v] c by (simp add: same_editor_def)
  note facts = after_cancel_1 [OF assms c] after_cancel_2 [OF assms c]
    after_cancel_3 [OF assms c] after_cancel_4 [OF assms c]
    after_cancel_1 [OF assms c2] after_cancel_2 [OF assms c2]
  have "on_tree_double_click float v g region item column =
          (if region \<noteq> ''cell'' then g1
           else
             (case (item, column) of
                (Some item, Some column) \<Rightarrow>
                  (let column_index = int column - 1
                   in if column_index < 0 \<or> column_index \<ge> int (length columns) then g1
                      else
                        (let column_name = columns ! nat column_index
                         in if column_name \<in> set non_editable_columns then
                              (if column_name = ''ID'' then edit_entry float v g1 else g1)
                            else start_inline_edit v g1 item column_name column_index))
              | _ \<Rightarrow> g1))"
    unfolding on_tree_double_click_def g1_def Let_def by (rule refl)
  then show ?thesis using facts
    by (simp add: Let_def split: option.split)
qed

lemma step_editor:
  assumes "single_editor g"
  shows "single_editor (step float g ve) \<and> editor_transition g (step float g ve)"
proof (cases ve)
  case (Pair v ev)
  show ?thesis
  proof (cases ev)
    case (Double_click region item column)
    with Pair on_tree_double_click_editor [OF assms] show ?thesis by (simp add: step_def)
  next
    case Finish
    with Pair finish_inline_edit_editor [OF assms] show ?thesis by (simp add: step_def)
  next
    case Cancel_edit
    with Pair single_editor_cancel [OF assms] transition_cancel [OF assms] show ?thesis
      by (simp add: step_def)
  next
    case Focus_out
    have "same_editor g (g\<lparr>idle := idle g + 1\<rparr>)" by simp
    with Pair Focus_out assms show ?thesis
      by (simp add: step_def single_editor_same transition_refl del: same_editor_updates)
  next
    case Idle
    have s: "same_editor g (g\<lparr>idle := idle g - 1\<rparr>)" by simp
    have s1: "single_editor (g\<lparr>idle := idle g - 1\<rparr>)"
      using assms s by (rule single_editor_same)
    have t: "editor_transition g (check_focus_out float v (g\<lparr>idle := idle g - 1\<rparr>))"
      using check_focus_out_editor [OF s1, of float v] s
      by (simp add: editor_transition_def same_editor_def)
    with Pair Idle assms check_focus_out_editor [OF s1, of float v] show ?thesis
      by (simp add: step_def transition_refl)
  qed
qed

lemma run_snoc: "run float g (ves @ [ve]) = step float (run float g ves) ve"
  by (simp add: run_def)

lemma single_editor_run: "single_editor (run float (init_gui d) ves)"
proof (induction ves rule: rev_induct)
  case Nil
  show ?case by (simp add: run_def single_editor_init)
next
  case (snoc ve ves)
  then show ?case by (simp add: run_snoc step_editor)
qed

lemma force_cancel:
  assumes inv: "single_editor g" and ed: "editing_entry g = Some w"
    and it: "map_of (tree g) item = Some rid" and vis: "visible v"
    and lo: "3 \<le> column" and hi: "column \<le> 11"
  shows "db (on_tree_double_click float v g ''cell'' (Some item) (Some column)) = db g \<and>
         tree (on_tree_double_click float v g ''cell'' (Some item) (Some column)) = tree g \<and>
         errors (on_tree_double_click float v g ''cell'' (Some item) (Some column)) = errors g \<and>
         editing_entry (on_tree_double_click float v g ''cell'' (Some item) (Some column)) =
           Some (next_widget g) \<and>
         editing_item (on_tree_double_click float v g ''cell'' (Some item) (Some column)) = Some item \<and>
         editing_column (on_tree_double_click float v g ''cell'' (Some item) (Some column)) =
           Some (columns ! (column - 1)) \<and>
         entries (on_tree_double_click float v g ''cell'' (Some item) (Some column)) = [next_widget g] \<and>
         w \<noteq> next_widget g \<and>
         on_tree_double_click float (v\<lparr>typed := txt\<rparr>) g ''cell'' (Some item) (Some column) =
           on_tree_double_click float v g ''cell'' (Some item) (Some column)"
proof -
  define g1 where "g1 = cancel_inline_edit g"
  have g1: "db g1 = db g" "tree g1 = tree g" "errors g1 = errors g" "entries g1 = []"
    "next_widget g1 = next_widget g"
    using inv ed by (simp_all add: g1_def cancel_inline_edit_def single_editor_def)
  have w: "w < next_widget g" using inv ed by (auto simp: single_editor_def)
  have col: "column = 3 \<or> column = 4 \<or> column = 5 \<or> column = 6 \<or> column = 7 \<or> column = 8 \<or>
             column = 9 \<or> column = 10 \<or> column = 11"
    using lo hi by arith
  have name: "columns ! (column - 1) \<notin> set non_editable_columns"
    using col by (elim disjE) (simp_all add: columns_def non_editable_columns_def)
  have idx: "nat (int column - 1) = column - 1" "\<not> int column - 1 < 0" "\<not> int column - 1 \<ge> int (length columns)"
    using lo hi by (simp_all add: columns_def)
  have eq: "on_tree_double_click float u g ''cell'' (Some item) (Some column) =
            start_inline_edit u g1 item (columns ! (column - 1)) (int column - 1)" for u
    using ed name idx by (simp add: on_tree_double_click_def g1_def Let_def)
  have st: "start_inline_edit u g1 item (columns ! (column - 1)) (int column - 1) =
            g1\<lparr>entries := [next_widget g], next_widget := next_widget g + 1,
               editing_entry := Some (next_widget g), editing_item := Some item,
               editing_column := Some (columns ! (column - 1)),
               editing_column_index := Some (int column - 1)\<rparr>" if "visible u" for u
    using that it g1 idx by (simp add: start_inline_edit_def Let_def)
  have vt: "visible (v\<lparr>typed := txt\<rparr>)" using vis by simp
  show ?thesis
    unfolding eq st [OF vis] st [OF vt] using g1 w by simp
qed

text \<open>
  Claim C8. Let \<open>g\<close> be the window after any sequence of events, from the start. Then at
  most one Entry widget exists, and it is the one \<open>editing_entry\<close> refers to. Any further
  event keeps this, and changes the editor only by the transitions of
  \<open>editor_transition\<close>: Editing to Idle, or to Editing with a new widget when no other
  is left. And a double click on an editable cell (the columns 3 to 11) of a row on
  screen while a cell is Editing leaves the database as it is, removes the old editor
  and opens the new cell; the text typed into the old editor plays no part in the result.
\<close>

theorem single_editor_after_any_events:
  assumes "g = run float (init_gui d) ves"
  shows "single_editor g \<and> length (entries g) \<le> 1 \<and>
         single_editor (step float g ve) \<and> editor_transition g (step float g ve) \<and>
         (editing_entry g = Some w \<and> map_of (tree g) item = Some rid \<and> visible v \<and>
          3 \<le> column \<and> column \<le> 11 \<longrightarrow>
            db (on_tree_double_click float v g ''cell'' (Some item) (Some column)) = db g \<and>
            editing_entry (on_tree_double_click float v g ''cell'' (Some item) (Some column)) =
              Some (next_widget g) \<and>
            editing_item (on_tree_double_click float v g ''cell'' (Some item) (Some column)) = Some item \<and>
            editing_column (on_tree_double_click float v g ''cell'' (Some item) (Some column)) =
              Some (columns ! (column - 1)) \<and>
            entries (on_tree_double_click float v g ''cell'' (Some item) (Some column)) = [next_widget g] \<and>
            w \<noteq> next_widget g \<and>
            on_tree_double_click float (v\<lparr>typed := txt\<rparr>) g ''cell'' (Some item) (Some column) =
              on_tree_double_click float v g ''cell'' (Some item) (Some column))"
proof -
  have inv: "single_editor g" unfolding assms by (rule single_editor_run)
  have one: "length (entries g) \<le> 1"
    using inv by (simp add: single_editor_def split: option.split)
  have st: "single_editor (step float g ve) \<and> editor_transition g (step float g ve)"
    using inv by (rule step_editor)
  have fc: "db (on_tree_double_click float v g ''cell'' (Some item) (Some column)) = db g \<and>
            editing_entry (on_tree_double_click float v g ''cell'' (Some item) (Some column)) =
              Some (next_widget g) \<and>
            editing_item (on_tree_double_click float v g ''cell'' (Some item) (Some column)) = Some item \<and>
            editing_column (on_tree_double_click float v g ''cell'' (Some item) (Some column)) =
              Some (columns ! (column - 1)) \<and>
            entries (on_tree_double_click float v g ''cell'' (Some item) (Some column)) = [next_widget g] \<and>
            w \<noteq> next_widget g \<and>
            on_tree_double_click float (v\<lparr>typed := txt\<rparr>) g ''cell'' (Some item) (Some column) =
              on_tree_double_click float v g ''cell'' (Some item) (Some column)"
    if h: "editing_entry g = Some w" "map_of (tree g) item = Some rid" "visible v"
       "3 \<le> column" "column \<le> 11"
    using force_cancel [OF inv h, of float "txt"] by simp
  from inv one st fc show ?thesis by blast
qed

lemma run_double_click_seller_1:
  "run float (init_gui bob_ledger) [(typing txt, Double_click ''cell'' (Some 1) (Some 6))] =
     \<lparr>db = bob_ledger, tree = [(1, 1)], next_item = 2, editing_entry = Some 1, editing_item = Some 1,
      editing_column = Some ''Seller 1'', editing_column_index = Some 5, entries = [1], next_widget = 2,
      errors = [], status_var = Total_entries 1, idle = 0\<rparr>"
  by (simp add: run_def init_gui_bob step_def on_tree_double_click_def start_inline_edit_def columns_def
      non_editable_columns_def typing_def)

text \<open>
  On the ledger of Bob: the cell \<open>Seller 1\<close> is Editing with 99 typed; a double click on
  the cell \<open>Name\<close> of the same row leaves the ledger as it was and widget 2 as the only
  editor.
\<close>

theorem single_editor_after_any_events_witness:
  "editing_entry (run decimal_literal (init_gui bob_ledger)
                    [(typing ''99'', Double_click ''cell'' (Some 1) (Some 6))]) = Some 1 \<and>
   map_of (tree (run decimal_literal (init_gui bob_ledger)
                    [(typing ''99'', Double_click ''cell'' (Some 1) (Some 6))])) 1 = Some 1 \<and>
   visible (typing ''99'') \<and> (3::nat) \<le> 3 \<and> (3::nat) \<le> 11 \<and>
   db (on_tree_double_click decimal_literal (typing ''99'')
         (run decimal_literal (init_gui bob_ledger)
            [(typing ''99'', Double_click ''cell'' (Some 1) (Some 6))])
         ''cell'' (Some 1) (Some 3)) = bob_ledger \<and>
   editing_entry (on_tree_double_click decimal_literal (typing ''99'')
         (run decimal_literal (init_gui bob_ledger)
            [(typing ''99'', Double_click ''cell'' (Some 1) (Some 6))])
         ''cell'' (Some 1) (Some 3)) = Some 2 \<and>
   editing_column (on_tree_double_click decimal_literal (typing ''99'')
         (run decimal_literal (init_gui bob_ledger)
            [(typing ''99'', Double_click ''cell'' (Some 1) (Some 6))])
         ''cell'' (Some 1) (Some 3)) = Some ''Name'' \<and>
   entries (on_tree_double_click decimal_literal (typing ''99'')
         (run decimal_literal (init_gui bob_ledger)
            [(typing ''99'', Double_click ''cell'' (Some 1) (Some 6))])
         ''cell'' (Some 1) (Some 3)) = [2] \<and>
   single_editor (run decimal_literal (init_gui bob_ledger)
                    [(typing ''99'', Double_click ''cell'' (Some 1) (Some 6))])"
  using single_editor_after_any_events [OF refl, of decimal_literal bob_ledger
      "[(typing ''99'', Double_click ''cell'' (Some 1) (Some 6))]"
      "(typing ''99'', Cancel_edit)" 1 1 1 "typing ''99''" 3 "[]"]
  unfolding run_double_click_seller_1
  by (simp add: typing_def columns_def)

section \<open>The inline editor: loss of focus\<close>

text \<open>
  Claim C9. The \<open>FocusOut\<close> notification changes nothing but the number of scheduled
  checks: it commits nothing, whatever the world is at that moment. The check runs later,
  when Tk is idle, with the focus as it is then. It does nothing when no check is
  scheduled or no cell is Editing, it only takes the check off the list when the editor
  holds the focus, and it is the commit of \<open>finish_inline_edit\<close> exactly when the editor
  does not hold the focus.
\<close>

theorem focus_out_only_schedules_the_check:
  "step float g (v, Focus_out) = g\<lparr>idle := idle g + 1\<rparr> \<and>
   (idle g = 0 \<longrightarrow> step float g (v, Idle) = g) \<and>
   (0 < idle g \<and> editing_entry g = None \<longrightarrow> step float g (v, Idle) = g\<lparr>idle := idle g - 1\<rparr>) \<and>
   (0 < idle g \<and> editing_entry g = Some w \<and> w \<in> set (entries g) \<and> focus v = Some w \<longrightarrow>
      step float g (v, Idle) = g\<lparr>idle := idle g - 1\<rparr>) \<and>
   (0 < idle g \<and> editing_entry g = Some w \<and> w \<in> set (entries g) \<and> focus v \<noteq> Some w \<longrightarrow>
      step float g (v, Idle) = finish_inline_edit float v (g\<lparr>idle := idle g - 1\<rparr>))"
proof (intro conjI impI)
  show "step float g (v, Focus_out) = g\<lparr>idle := idle g + 1\<rparr>"
    by (simp add: step_def)
next
  assume "idle g = 0"
  then show "step float g (v, Idle) = g" by (simp add: step_def)
next
  assume "0 < idle g \<and> editing_entry g = None"
  then show "step float g (v, Idle) = g\<lparr>idle := idle g - 1\<rparr>"
    by (simp add: step_def check_focus_out_def)
next
  assume "0 < idle g \<and> editing_entry g = Some w \<and> w \<in> set (entries g) \<and> focus v = Some w"
  then show "step float g (v, Idle) = g\<lparr>idle := idle g - 1\<rparr>"
    by (simp add: step_def check_focus_out_def)
next
  assume "0 < idle g \<and> editing_entry g = Some w \<and> w \<in> set (entries g) \<and> focus v \<noteq> Some w"
  then show "step float g (v, Idle) = finish_inline_edit float v (g\<lparr>idle := idle g - 1\<rparr>)"
    by (simp add: step_def check_focus_out_def)
qed

lemma editing_seller_1_eq:
  "editing_seller_1 =
     \<lparr>db = bob_ledger, tree = [(1, 1)], next_item = 2, editing_entry = Some 1, editing_item = Some 1,
      editing_column = Some ''Seller 1'', editing_column_index = Some 5, entries = [1], next_widget = 2,
      errors = [], status_var = Total_entries 1, idle = 0\<rparr>"
  unfolding editing_seller_1_def by (rule run_double_click_seller_1)

lemma decimal_literal_25: "decimal_literal ''25'' = Some 25"
  by (simp add: decimal_literal_def)

lemma commit_25:
  "db (finish_inline_edit decimal_literal ((typing ''25'')\<lparr>focus := None\<rparr>) editing_seller_1) =
     \<lparr>rows = [bob\<lparr>seller_1 := Some 25, updated_at := 9\<rparr>], seq = 1\<rparr>"
  unfolding editing_seller_1_eq
  by (simp add: finish_inline_edit_def cancel_inline_edit_def column_to_field_def
        currency_columns_def typing_def strip_def isspace_def parse_currency_def decimal_literal_25
        update_entry_kw_def update_entry_eq partially_updated_def
        Let_def rows_bob_ledger bob_def get_entry_def)

text \<open>
  With the cell \<open>Seller 1\<close> of Bob Editing and 25 typed: the notification leaves the
  ledger alone; if the editor has the focus when the check runs, the window is as before
  the notification; if it has not, the commit stores 25.
\<close>

theorem focus_out_only_schedules_the_check_witness:
  "step decimal_literal editing_seller_1 (typing ''25'', Focus_out) = editing_seller_1\<lparr>idle := 1\<rparr> \<and>
   db (editing_seller_1\<lparr>idle := 1\<rparr>) = bob_ledger \<and>
   editing_entry (editing_seller_1\<lparr>idle := 1\<rparr>) = Some 1 \<and>
   step decimal_literal (editing_seller_1\<lparr>idle := 1\<rparr>) ((typing ''25'')\<lparr>focus := Some 1\<rparr>, Idle) =
     editing_seller_1 \<and>
   db (step decimal_literal (editing_seller_1\<lparr>idle := 1\<rparr>) (typing ''25'', Idle)) =
     \<lparr>rows = [bob\<lparr>seller_1 := Some 25, updated_at := 9\<rparr>], seq = 1\<rparr> \<and>
   step decimal_literal editing_seller_1 (typing ''25'', Idle) = editing_seller_1"
proof -
  have a: "step decimal_literal (editing_seller_1\<lparr>idle := 1\<rparr>) ((typing ''25'')\<lparr>focus := Some 1\<rparr>, Idle) =
           editing_seller_1"
    using focus_out_only_schedules_the_check [of decimal_literal "editing_seller_1\<lparr>idle := 1\<rparr>" "(typing ''25'')\<lparr>focus := Some 1\<rparr>" 1]
    by (simp add: editing_seller_1_eq)
  have b: "step decimal_literal (editing_seller_1\<lparr>idle := 1\<rparr>) (typing ''25'', Idle) =
           finish_inline_edit decimal_literal (typing ''25'') (editing_seller_1\<lparr>idle := 0\<rparr>)"
    using focus_out_only_schedules_the_check [of decimal_literal "editing_seller_1\<lparr>idle := 1\<rparr>" "typing ''25''" 1]
    by (simp add: editing_seller_1_eq typing_def)
  have c: "editing_seller_1\<lparr>idle := 0\<rparr> = editing_seller_1" by (simp add: editing_seller_1_eq)
  have d: "(typing ''25'')\<lparr>focus := None\<rparr> = typing ''25''" by (simp add: typing_def)
  have e: "step decimal_literal editing_seller_1 (typing ''25'', Focus_out) = editing_seller_1\<lparr>idle := 1\<rparr> \<and>
           step decimal_literal editing_seller_1 (typing ''25'', Idle) = editing_seller_1"
    using focus_out_only_schedules_the_check [of decimal_literal editing_seller_1 "typing ''25''" 1]
    by (simp add: editing_seller_1_eq)
  show ?thesis
    using a e commit_25 unfolding b c d by (simp add: editing_seller_1_eq)
qed

end
